theory Spec2Isabelle
  imports Complex_Main "HOL-Library.Word" "HOL-Library.Log_Nat"
begin

unbundle bit_operations_syntax

section \<open>GpuJoin runtime: data model\<close>

text \<open>
  The development embeds the buffer and task-scheduling part of the GpuJoin executor
  (\<^verbatim>\<open>src/unnamed/part_000\<close>): the inner-relation loader
  (\<^verbatim>\<open>gpujoin_inner_hash_preload\<close>, \<^verbatim>\<open>gpujoin_inner_hash_preload_TS\<close>),
  the window enumeration of \<^verbatim>\<open>gpujoin_inner_preload\<close>, the multi-relation buffer
  (\<^verbatim>\<open>multirels_*\<close>), the result-buffer sizing
  (\<^verbatim>\<open>gpujoin_attach_result_buffer\<close>), the completion callback
  (\<^verbatim>\<open>gpujoin_task_complete\<close>) and the kernel launch sequence of
  \<^verbatim>\<open>__gpujoin_task_process\<close>.

  Conventions: a C \<^verbatim>\<open>elog(ERROR, ...)\<close> is a value \<open>Inl e\<close>; a NULL pointer is
  \<open>None\<close> (or the device pointer \<open>0\<close>); \<^verbatim>\<open>cl_uint\<close> hash values are
  \<open>32 word\<close>; \<^verbatim>\<open>Size\<close> byte counts are \<open>nat\<close> (they count bytes of host memory
  and stay far below \<open>2^64\<close>); \<^verbatim>\<open>cl_int\<close> counters are \<open>int\<close>.
\<close>

type_synonym u32 = "32 word"

datatype JoinType = JOIN_INNER | JOIN_LEFT | JOIN_FULL | JOIN_RIGHT

datatype error =
    ERR_TooExtremeHashKeyDistribution
  | ERR_HistgramNotCorrect
  | ERR_KresultsGrowthRatioTooLarge
  | ERR_TooMuchGrowthOfResults
  | ERR_UnexpectedResultFormat
  | TRAP_NullDereference
  | TRAP_DivideByZero
  | UNDEF_DoubleDivideByZero

text \<open>
  An inner row as the loader sees it: the hash value of its join key
  (\<^verbatim>\<open>get_tuple_hashvalue\<close>) and the length \<^verbatim>\<open>t_len\<close> of its heap tuple.
\<close>

type_synonym tuple = "u32 \<times> nat"

text \<open>
  \<^verbatim>\<open>pgstrom_data_store\<close> with the fields of its \<^verbatim>\<open>kern_data_store\<close> that the
  engine reads or writes. \<open>kds_rows\<close> stands for the rows stored in the chunk.
\<close>

record pgstrom_data_store =
  kds_length :: nat
  kds_usage :: nat
  kds_nitems :: nat
  kds_nrooms :: nat
  kds_nslots :: nat
  kds_hash_min :: u32
  kds_hash_max :: u32
  kds_rows :: "tuple list"

text \<open>
  \<^verbatim>\<open>innerState\<close>. \<open>tupstore\<close> is the tuplestore (NULL is \<open>None\<close>) with the rows
  put into it, in order; \<open>hash_join\<close> says that the depth has hash keys
  (\<^verbatim>\<open>hash_inner_keys != NIL\<close>, \<^verbatim>\<open>hash_outer_keys != NULL\<close>).
\<close>

record innerState =
  pds_list :: "pgstrom_data_store list"
  pds_index :: int
  pds_limit :: nat
  consumed :: nat
  ntuples :: nat
  tupstore :: "tuple list option"
  join_type :: JoinType
  nrows_ratio :: real
  ichunk_size :: nat
  hash_join :: bool
  hash_nslots :: nat
  hgram_shift :: nat
  hgram_width :: nat
  hgram_size :: "nat list"
  hgram_nitems :: "nat list"

text \<open>One entry of \<^verbatim>\<open>kern_multirels.chunks[]\<close>.\<close>

record kern_chunk =
  chunk_offset :: nat
  ojmap_offset :: nat
  left_outer :: bool
  right_outer :: bool

text \<open>
  \<^verbatim>\<open>pgstrom_multirels\<close>. The per-device arrays \<^verbatim>\<open>refcnt[]\<close>,
  \<^verbatim>\<open>m_kmrels[]\<close>, \<^verbatim>\<open>ev_loaded[]\<close> and \<^verbatim>\<open>m_ojmaps[]\<close> are functions of
  the device index; a device pointer or event handle \<open>0\<close> is NULL. \<open>released\<close>
  records that \<^verbatim>\<open>pfree(pmrels)\<close> has run.
\<close>

record pgstrom_multirels =
  head_length :: nat
  usage_length :: nat
  ojmap_length :: nat
  inner_chunks :: "pgstrom_data_store list"
  kern_chunks :: "kern_chunk list"
  kern_ndevs :: nat
  outer_join_kicked :: bool
  n_attached :: int
  refcnt :: "nat \<Rightarrow> int"
  m_kmrels :: "nat \<Rightarrow> nat"
  ev_loaded :: "nat \<Rightarrow> nat"
  m_ojmaps :: "nat \<Rightarrow> nat"
  released :: bool

text \<open>
  What the source takes from files outside \<^verbatim>\<open>src/\<close> is a parameter of the model:
  the alignment of \<^verbatim>\<open>STROMALIGN\<close>; the offsets
  \<^verbatim>\<open>offsetof(kern_multirels, chunks[n])\<close>, \<^verbatim>\<open>offsetof(kern_gpujoin, kparams)\<close>,
  \<^verbatim>\<open>offsetof(kern_resultbuf, results[0])\<close>,
  \<^verbatim>\<open>offsetof(kern_data_store, colmeta[n])\<close>, \<^verbatim>\<open>offsetof(kern_tupitem, htup)\<close>
  and \<^verbatim>\<open>offsetof(kern_hashitem, htup)\<close>; the macro
  \<^verbatim>\<open>KERN_DATA_STORE_HEAD_LENGTH\<close> (as a function of the number of columns); the
  block size \<^verbatim>\<open>BLCKSZ\<close>; the
  configuration functions \<^verbatim>\<open>pgstrom_chunk_size()\<close>,
  \<^verbatim>\<open>pgstrom_chunk_size_limit()\<close> and \<^verbatim>\<open>pgstrom_chunk_size_margin()\<close>; and the
  data-store functions \<^verbatim>\<open>pgstrom_create_data_store_hash\<close> (length, nslots),
  \<^verbatim>\<open>pgstrom_create_data_store_row\<close> (length),
  \<^verbatim>\<open>pgstrom_create_data_store_slot\<close> (nrooms),
  \<^verbatim>\<open>pgstrom_data_store_insert_hashitem\<close> (\<open>None\<close> when the row does not fit),
  \<^verbatim>\<open>pgstrom_expand_data_store\<close> (new length, new nslots) and
  \<^verbatim>\<open>pgstrom_shrink_data_store\<close>.
\<close>

record platform =
  stromalign_len :: nat
  multirels_head :: "nat \<Rightarrow> nat"
  gpujoin_kparams_off :: nat
  resultbuf_head :: nat
  kds_colmeta_off :: "nat \<Rightarrow> nat"
  kds_head_length :: "nat \<Rightarrow> nat"
  tupitem_htup_off :: nat
  hashitem_htup_off :: nat
  BLCKSZ :: nat
  pgstrom_chunk_size :: nat
  pgstrom_chunk_size_limit :: nat
  pgstrom_chunk_size_margin :: real
  create_data_store_hash :: "nat \<Rightarrow> nat \<Rightarrow> pgstrom_data_store"
  create_data_store_row :: "nat \<Rightarrow> pgstrom_data_store"
  create_data_store_slot :: "nat \<Rightarrow> pgstrom_data_store"
  data_store_insert_hashitem :: "pgstrom_data_store \<Rightarrow> tuple \<Rightarrow> pgstrom_data_store option"
  expand_data_store :: "pgstrom_data_store \<Rightarrow> nat \<Rightarrow> nat \<Rightarrow> pgstrom_data_store"
  shrink_data_store :: "pgstrom_data_store \<Rightarrow> pgstrom_data_store"

definition TYPEALIGN :: "nat \<Rightarrow> nat \<Rightarrow> nat" where
  "TYPEALIGN a len = ((len + (a - 1)) div a) * a"

definition STROMALIGN :: "platform \<Rightarrow> nat \<Rightarrow> nat" where
  "STROMALIGN P len = TYPEALIGN (stromalign_len P) len"

text \<open>\<^verbatim>\<open>MAXALIGN\<close> and \<^verbatim>\<open>LONGALIGN\<close> of PostgreSQL on a 64-bit platform.\<close>

definition MAXALIGN :: "nat \<Rightarrow> nat" where
  "MAXALIGN len = TYPEALIGN 8 len"

definition LONGALIGN :: "nat \<Rightarrow> nat" where
  "LONGALIGN len = TYPEALIGN 8 len"

text \<open>\<^verbatim>\<open>KERN_DATA_STORE_HEAD_LENGTH\<close> of a store of \<open>ncols\<close> columns.\<close>

definition KERN_DATA_STORE_HEAD_LENGTH :: "platform \<Rightarrow> nat \<Rightarrow> nat" where
  "KERN_DATA_STORE_HEAD_LENGTH P ncols = kds_head_length P ncols"

subsection \<open>Double-precision arithmetic\<close>

text \<open>
  A C \<^verbatim>\<open>double\<close> is an IEEE 754 binary64 number. It is modelled by the real number
  it denotes, and an arithmetic operation of the code by the exact operation followed
  by the rounding to the nearest number with a significand of 53 bits, ties to even:
  every operation is evaluated in double precision, on its own. The exponent range is
  not bounded (overflow to infinity and subnormal numbers are left out), and a division
  by zero is the outcome \<open>UNDEF_DoubleDivideByZero\<close> of the function that makes it.
  A real number that is not such a number stands for the nearest one: the operations
  round their operands first, which leaves a double as it is.

  \<open>round_ties_even\<close> rounds to the nearest integer, \<open>pow2 e\<close> is \<open>2^e\<close>, and
  \<open>double_exponent x\<close> is the \<open>e\<close> with \<open>2^e \<le> |x| < 2^(e+1)\<close>.
\<close>

definition round_ties_even :: "real \<Rightarrow> int" where
  "round_ties_even x =
     (let f = \<lfloor>x\<rfloor>; d = x - of_int f
      in if d < 1 / 2 then f else if 1 / 2 < d then f + 1 else if even f then f else f + 1)"

definition pow2 :: "int \<Rightarrow> real" where
  "pow2 e = (if 0 \<le> e then 2 ^ nat e else 1 / 2 ^ nat (- e))"

definition double_exponent :: "real \<Rightarrow> int" where
  "double_exponent x =
     (if 1 \<le> \<bar>x\<bar> then bitlen \<lfloor>\<bar>x\<bar>\<rfloor> - 1 else - bitlen (\<lceil>1 / \<bar>x\<bar>\<rceil> - 1))"

definition double_round :: "real \<Rightarrow> real" where
  "double_round x =
     (if x = 0 then 0
      else (let e = double_exponent x - 52
            in of_int (round_ties_even (x / pow2 e)) * pow2 e))"

definition dadd :: "real \<Rightarrow> real \<Rightarrow> real" where
  "dadd x y = double_round (double_round x + double_round y)"

definition dsub :: "real \<Rightarrow> real \<Rightarrow> real" where
  "dsub x y = double_round (double_round x - double_round y)"

definition dmul :: "real \<Rightarrow> real \<Rightarrow> real" where
  "dmul x y = double_round (double_round x * double_round y)"

definition ddiv :: "real \<Rightarrow> real \<Rightarrow> real" where
  "ddiv x y = double_round (double_round x / double_round y)"

text \<open>
  The conversion \<^verbatim>\<open>(Size) x\<close> or \<^verbatim>\<open>(cl_uint) x\<close> of a double that is not
  negative: truncation.
\<close>

definition double_to_size :: "real \<Rightarrow> nat" where
  "double_to_size x = nat \<lfloor>x\<rfloor>"

section \<open>Inner-relation loader\<close>

subsection \<open>\<^verbatim>\<open>gpujoin_inner_hash_preload_TS\<close>\<close>

text \<open>
  The variables of the partitioning loop (lines 4473-4509): the chunks made so far with
  their \<^verbatim>\<open>hash_max\<close> values, the accumulated size and row count, and the lower bound
  of the next chunk.
\<close>

record ts_loop =
  ts_pds_list :: "pgstrom_data_store list"
  ts_hash_max_list :: "u32 list"
  ts_curr_size :: nat
  ts_curr_nitems :: nat
  ts_hash_min :: u32

text \<open>
  The chunk sealed at a boundary (lines 4484-4498), of \<open>curr_nitems\<close> rows and
  \<open>curr_size\<close> bytes, and the last chunk (lines 4513-4526), which has at least 128
  slots and one block more.
\<close>

definition ts_chunk ::
  "platform \<Rightarrow> nat \<Rightarrow> nat \<Rightarrow> nat \<Rightarrow> u32 \<Rightarrow> u32 \<Rightarrow> pgstrom_data_store" where
  "ts_chunk P ncols curr_size curr_nitems hmin hmax =
     (let nslots = double_to_size (dmul (real curr_nitems) (pgstrom_chunk_size_margin P));
          len = STROMALIGN P (kds_colmeta_off P ncols) + STROMALIGN P (4 * nslots) + curr_size
      in (create_data_store_hash P len nslots)\<lparr>kds_hash_min := hmin, kds_hash_max := hmax\<rparr>)"

definition ts_last_chunk ::
  "platform \<Rightarrow> nat \<Rightarrow> nat \<Rightarrow> nat \<Rightarrow> u32 \<Rightarrow> pgstrom_data_store" where
  "ts_last_chunk P ncols curr_size curr_nitems hmin =
     (let nslots = max (double_to_size (dmul (real curr_nitems) (pgstrom_chunk_size_margin P))) 128;
          len = STROMALIGN P (kds_colmeta_off P ncols) + STROMALIGN P (4 * nslots)
                  + curr_size + BLCKSZ P
      in (create_data_store_hash P len nslots)\<lparr>kds_hash_min := hmin, kds_hash_max := - 1\<rparr>)"

text \<open>
  \<^verbatim>\<open>hash_max = (i + 1) * (1U << istate->hgram_shift) - 1\<close>, in 32-bit unsigned
  arithmetic.
\<close>

definition ts_hash_max :: "nat \<Rightarrow> nat \<Rightarrow> u32" where
  "ts_hash_max shift i = (of_nat (i + 1)) * (push_bit shift 1) - 1"

text \<open>
  The loop \<^verbatim>\<open>for (i=0; i < istate->hgram_width; i++)\<close> over the histogram buckets
  (size, row count), from bucket \<open>i\<close> on.
\<close>

fun hgram_partition ::
  "platform \<Rightarrow> nat \<Rightarrow> nat \<Rightarrow> nat \<Rightarrow> nat \<Rightarrow> (nat \<times> nat) list \<Rightarrow> ts_loop
     \<Rightarrow> error + ts_loop" where
  "hgram_partition P ncols limit shift i [] st = Inr st"
| "hgram_partition P ncols limit shift i ((next_size, next_nitems) # rest) st =
     (if ts_curr_size st + next_size > limit
      then (if ts_curr_size st = 0
            then Inl ERR_TooExtremeHashKeyDistribution
            else hgram_partition P ncols limit shift (i + 1) rest
                   \<lparr> ts_pds_list = ts_pds_list st @
                       [ts_chunk P ncols (ts_curr_size st) (ts_curr_nitems st)
                          (ts_hash_min st) (ts_hash_max shift i)],
                     ts_hash_max_list = ts_hash_max_list st @ [ts_hash_max shift i],
                     ts_curr_size = next_size,
                     ts_curr_nitems = next_nitems,
                     ts_hash_min = ts_hash_max shift i + 1 \<rparr>)
      else hgram_partition P ncols limit shift (i + 1) rest
             (st\<lparr> ts_curr_size := ts_curr_size st + next_size,
                  ts_curr_nitems := ts_curr_nitems st + next_nitems \<rparr>))"

definition ts_init :: ts_loop where
  "ts_init = \<lparr> ts_pds_list = [], ts_hash_max_list = [], ts_curr_size = 0,
               ts_curr_nitems = 0, ts_hash_min = 0 \<rparr>"

text \<open>
  The histogram of a depth as the partitioning loop reads it: \<^verbatim>\<open>hgram_size[i]\<close>
  and \<^verbatim>\<open>hgram_nitems[i]\<close> for \<open>i\<close> below \<^verbatim>\<open>hgram_width\<close>.
\<close>

definition hgram_buckets :: "innerState \<Rightarrow> (nat \<times> nat) list" where
  "hgram_buckets istate =
     take (hgram_width istate) (zip (hgram_size istate) (hgram_nitems istate))"

text \<open>
  The chunks and \<^verbatim>\<open>hash_max\<close> values after the partitioning loop and the last
  chunk (lines 4473-4528), before any row is loaded.
\<close>

definition ts_boundaries ::
  "platform \<Rightarrow> nat \<Rightarrow> innerState \<Rightarrow> error + (pgstrom_data_store \<times> u32) list" where
  "ts_boundaries P ncols istate =
     (case hgram_partition P ncols (pds_limit istate) (hgram_shift istate) 0
             (hgram_buckets istate) ts_init of
        Inl e \<Rightarrow> Inl e
      | Inr st \<Rightarrow>
          Inr (zip (ts_pds_list st @
                      [ts_last_chunk P ncols (ts_curr_size st) (ts_curr_nitems st) (ts_hash_min st)])
                   (ts_hash_max_list st @ [- 1])))"

text \<open>
  \<^verbatim>\<open>gpujoin_inner_hash_preload_TS\<close>. The tuplestore must be built
  (\<^verbatim>\<open>Assert(tupstore != NULL)\<close>). The partitioning loop makes the chunks; the loop
  that is to load the rows (lines 4533-4550) calls \<^verbatim>\<open>tuplestore_gettupleslot\<close>
  with \<^verbatim>\<open>tupslot\<close>, which is the null pointer from its declaration on (line 4456):
  PostgreSQL stores the row into the slot, or clears the slot at the end of the
  tuplestore, and either way dereferences it. So the function does not get beyond
  this call: no row is loaded and \<^verbatim>\<open>pds_list\<close> is not assigned.
\<close>

definition gpujoin_inner_hash_preload_TS ::
  "platform \<Rightarrow> nat \<Rightarrow> innerState \<Rightarrow> error + innerState" where
  "gpujoin_inner_hash_preload_TS P ncols istate =
     (case tupstore istate of
        None \<Rightarrow> Inl TRAP_NullDereference
      | Some rows \<Rightarrow>
          (case ts_boundaries P ncols istate of
             Inl e \<Rightarrow> Inl e
           | Inr chunks \<Rightarrow> Inl TRAP_NullDereference))"

subsection \<open>\<^verbatim>\<open>gpujoin_inner_hash_preload\<close>\<close>

text \<open>
  The end of the inner scan (lines 4583-4605): the chunks are rebuilt from the
  tuplestore if there is one, and a depth without any row gets one empty hash table.
\<close>

definition hash_preload_eof ::
  "platform \<Rightarrow> nat \<Rightarrow> innerState \<Rightarrow> error + innerState" where
  "hash_preload_eof P ncols istate =
     (case (if tupstore istate \<noteq> None then gpujoin_inner_hash_preload_TS P ncols istate
            else Inr istate) of
        Inl e \<Rightarrow> Inl e
      | Inr ist \<Rightarrow>
          Inr (if pds_list ist = []
               then ist\<lparr>pds_list :=
                      [create_data_store_hash P
                         (STROMALIGN P (kds_colmeta_off P ncols) + STROMALIGN P (4 * 4)) 4]\<rparr>
               else ist))"

text \<open>
  Lines 4607-4630, for a row \<open>t\<close>: the first chunk is made if the depth has neither a
  chunk nor a tuplestore, and the histogram is updated.
\<close>

definition hash_preload_consumption :: "platform \<Rightarrow> tuple \<Rightarrow> nat" where
  "hash_preload_consumption P t = 4 + MAXALIGN (hashitem_htup_off P + snd t)"

definition hash_preload_begin :: "platform \<Rightarrow> nat \<Rightarrow> innerState \<Rightarrow> tuple \<Rightarrow> innerState" where
  "hash_preload_begin P ncols istate t =
     (let ist = (if pds_list istate \<noteq> [] then istate
                 else if tupstore istate = None
                 then istate\<lparr> pds_list :=
                        [create_data_store_hash P
                           (max (ichunk_size istate) (pgstrom_chunk_size P div 4))
                           (hash_nslots istate)],
                      consumed := KERN_DATA_STORE_HEAD_LENGTH P ncols \<rparr>
                 else istate);
          index = unat (drop_bit (hgram_shift ist) (fst t))
      in ist\<lparr> hgram_size := (hgram_size ist)
                  [index := hgram_size ist ! index + hash_preload_consumption P t],
              hgram_nitems := (hgram_nitems ist)[index := hgram_nitems ist ! index + 1] \<rparr>)"

text \<open>
  The code from the label \<^verbatim>\<open>retry\<close> on (lines 4637-4713). \<^verbatim>\<open>pds_hash\<close> is the
  last chunk of \<^verbatim>\<open>pds_list\<close>. The loop ends when the row is stored; \<open>None\<close> is a
  loop that never ends. When the depth is spilled, the rows of the chunk go to the
  tuplestore (in the model, in the order of \<open>kds_rows\<close>).
\<close>

partial_function (option) hash_preload_retry ::
  "platform \<Rightarrow> tuple \<Rightarrow> innerState \<times> nat \<Rightarrow> (bool \<times> innerState \<times> nat) option" where
  "hash_preload_retry P t st =
     (let istate = fst st; total_usage = snd st; consumption = hash_preload_consumption P t in
      case tupstore istate of
        Some rows \<Rightarrow>
          Some (True,
                istate\<lparr> tupstore := Some (rows @ [t]),
                        ntuples := ntuples istate + 1,
                        consumed := consumed istate + consumption \<rparr>,
                total_usage + consumption)
      | None \<Rightarrow>
          if pds_limit istate > 0 \<and> pds_limit istate \<le> consumed istate + consumption
             \<and> \<not> (join_type istate = JOIN_INNER \<or> join_type istate = JOIN_RIGHT)
          then hash_preload_retry P t
                 (istate\<lparr> tupstore := Some (kds_rows (last (pds_list istate))),
                          pds_list := [] \<rparr>, total_usage)
          else
            (let ist = (if pds_limit istate > 0 \<and> pds_limit istate \<le> consumed istate + consumption
                        then (let old = shrink_data_store P (last (pds_list istate));
                                  new = create_data_store_hash P (pds_limit istate)
                                          (double_to_size (dmul (real (kds_nitems old))
                                             (pgstrom_chunk_size_margin P)))
                              in istate\<lparr> pds_list := butlast (pds_list istate) @ [old, new],
                                         consumed := kds_usage new \<rparr>)
                        else istate);
                 pds_hash = last (pds_list ist)
             in case data_store_insert_hashitem P pds_hash t of
                  None \<Rightarrow>
                    hash_preload_retry P t
                      (ist\<lparr> pds_list := butlast (pds_list ist) @
                              [expand_data_store P pds_hash (2 * kds_length pds_hash)
                                 (double_to_size (dmul (pgstrom_chunk_size_margin P)
                                    (real (2 * kds_nitems pds_hash))))] \<rparr>, total_usage)
                | Some pds' \<Rightarrow>
                    Some (True,
                          ist\<lparr> pds_list := butlast (pds_list ist) @ [pds'],
                               ntuples := ntuples ist + 1,
                               consumed := consumed ist + consumption \<rparr>,
                          total_usage + consumption)))"

text \<open>
  \<^verbatim>\<open>gpujoin_inner_hash_preload\<close>: \<open>slot\<close> is the row that \<^verbatim>\<open>ExecProcNode\<close>
  returns (\<open>None\<close> at the end of the scan). The result is the return value, the
  depth's state and \<^verbatim>\<open>*p_total_usage\<close>.
\<close>

definition gpujoin_inner_hash_preload ::
  "platform \<Rightarrow> nat \<Rightarrow> innerState \<Rightarrow> tuple option \<Rightarrow> nat
     \<Rightarrow> (error + bool \<times> innerState \<times> nat) option" where
  "gpujoin_inner_hash_preload P ncols istate slot total_usage =
     (case slot of
        None \<Rightarrow>
          (case hash_preload_eof P ncols istate of
             Inl e \<Rightarrow> Some (Inl e)
           | Inr ist \<Rightarrow> Some (Inr (False, ist, total_usage)))
      | Some t \<Rightarrow>
          map_option Inr (hash_preload_retry P t (hash_preload_begin P ncols istate t, total_usage)))"

section \<open>Window enumeration: \<^verbatim>\<open>gpujoin_inner_preload\<close>\<close>

text \<open>
  \<^verbatim>\<open>gpujoin_create_multirels\<close>: an empty buffer for \<open>num_rels\<close> relations on
  \<open>ndevs\<close> devices (the allocation is zero-filled).
\<close>

definition gpujoin_create_multirels :: "platform \<Rightarrow> nat \<Rightarrow> nat \<Rightarrow> pgstrom_multirels" where
  "gpujoin_create_multirels P num_rels ndevs =
     \<lparr> head_length = STROMALIGN P (multirels_head P num_rels),
       usage_length = STROMALIGN P (multirels_head P num_rels),
       ojmap_length = 0,
       inner_chunks = [],
       kern_chunks = [],
       kern_ndevs = ndevs,
       outer_join_kicked = False,
       n_attached = 0,
       refcnt = (\<lambda>_. 0),
       m_kmrels = (\<lambda>_. 0),
       ev_loaded = (\<lambda>_. 0),
       m_ojmaps = (\<lambda>_. 0),
       released = False \<rparr>"

text \<open>
  The inner loop of the odometer (lines 4955-4956):
  \<^verbatim>\<open>for (j=i+1; j < gjs->num_rels; j++) gjs->inners[i].pds_index = 1;\<close>.
  The body assigns to \<^verbatim>\<open>inners[i]\<close>, the depth that was just incremented, once for
  every \<open>j\<close>.
\<close>

definition odometer_reset :: "innerState list \<Rightarrow> nat \<Rightarrow> innerState list" where
  "odometer_reset inners i =
     fold (\<lambda>j inn. inn[i := (inn ! i)\<lparr>pds_index := 1\<rparr>]) [Suc i ..< length inners] inners"

text \<open>
  The outer loop (lines 4948-4959), \<^verbatim>\<open>for (i=num_rels-1; i >= 0; i--)\<close>. The second
  argument is \<open>i + 1\<close>; the result \<open>None\<close> is the exit with \<open>i < 0\<close> (end of the inner
  scan, the function returns NULL).
\<close>

fun odometer_advance :: "innerState list \<Rightarrow> nat \<Rightarrow> innerState list option" where
  "odometer_advance inners 0 = None"
| "odometer_advance inners (Suc i) =
     (if pds_index (inners ! i) < int (length (pds_list (inners ! i)))
      then Some (odometer_reset (inners[i := (inners ! i)\<lparr>pds_index := pds_index (inners ! i) + 1\<rparr>]) i)
      else odometer_advance inners i)"

text \<open>
  One iteration of the window construction (lines 4970-4991) for depth \<open>istate\<close>.
  The chunk is \<^verbatim>\<open>linitial(istate->pds_list)\<close>, the first chunk of the depth's list;
  on an empty list \<^verbatim>\<open>linitial\<close> reads through a NULL list head.
\<close>

definition multirels_add_depth ::
  "platform \<Rightarrow> pgstrom_multirels \<Rightarrow> innerState \<Rightarrow> error + pgstrom_multirels" where
  "multirels_add_depth P pmrels istate =
     (case pds_list istate of
        [] \<Rightarrow> Inl TRAP_NullDereference
      | pds # _ \<Rightarrow>
          let ro = (join_type istate = JOIN_RIGHT \<or> join_type istate = JOIN_FULL);
              lo = (join_type istate = JOIN_LEFT \<or> join_type istate = JOIN_FULL);
              kc = \<lparr> chunk_offset = usage_length pmrels,
                     ojmap_offset = (if ro then ojmap_length pmrels else 0),
                     left_outer = lo,
                     right_outer = ro \<rparr>
          in Inr (pmrels\<lparr>
               inner_chunks := inner_chunks pmrels @ [pds],
               kern_chunks := kern_chunks pmrels @ [kc],
               usage_length := usage_length pmrels + STROMALIGN P (kds_length pds),
               ojmap_length := (if ro
                 then ojmap_length pmrels + STROMALIGN P (kds_nitems pds) * kern_ndevs pmrels
                 else ojmap_length pmrels) \<rparr>))"

fun multirels_add_depths ::
  "platform \<Rightarrow> pgstrom_multirels \<Rightarrow> innerState list \<Rightarrow> error + pgstrom_multirels" where
  "multirels_add_depths P pmrels [] = Inr pmrels"
| "multirels_add_depths P pmrels (istate # rest) =
     (case multirels_add_depth P pmrels istate of
        Inl e \<Rightarrow> Inl e
      | Inr pmrels' \<Rightarrow> multirels_add_depths P pmrels' rest)"

text \<open>Lines 4968-4996: the buffer for the current window, attached once for the caller.\<close>

definition gpujoin_make_window ::
  "platform \<Rightarrow> nat \<Rightarrow> innerState list \<Rightarrow> error + pgstrom_multirels" where
  "gpujoin_make_window P ndevs inners =
     (case multirels_add_depths P (gpujoin_create_multirels P (length inners) ndevs) inners of
        Inl e \<Rightarrow> Inl e
      | Inr pmrels \<Rightarrow> Inr (pmrels\<lparr>n_attached := 1\<rparr>))"

text \<open>
  \<^verbatim>\<open>gpujoin_inner_preload\<close> when \<^verbatim>\<open>gjs->curr_pmrels\<close> is set (lines 4946-4997):
  advance the odometer, then build the buffer of the next window. The result
  \<open>Inr (None, _)\<close> is the NULL return at the end of the inner scan.
\<close>

definition gpujoin_inner_preload_next ::
  "platform \<Rightarrow> nat \<Rightarrow> innerState list
     \<Rightarrow> error + (pgstrom_multirels option \<times> innerState list)" where
  "gpujoin_inner_preload_next P ndevs inners =
     (case odometer_advance inners (length inners) of
        None \<Rightarrow> Inr (None, inners)
      | Some inners' \<Rightarrow>
          (case gpujoin_make_window P ndevs inners' of
             Inl e \<Rightarrow> Inl e
           | Inr pmrels \<Rightarrow> Inr (Some pmrels, inners')))"

text \<open>
  \<open>n\<close> successive calls of \<^verbatim>\<open>gpujoin_inner_preload\<close> after the first window, as
  \<^verbatim>\<open>gpujoin_next_chunk\<close> makes them each time the outer relation is exhausted: the
  windows (their chunk lists) that were built, and whether the end of the inner scan
  was reached.
\<close>

fun preload_windows ::
  "platform \<Rightarrow> nat \<Rightarrow> nat \<Rightarrow> innerState list
     \<Rightarrow> error + (pgstrom_data_store list list \<times> bool)" where
  "preload_windows P ndevs 0 inners = Inr ([], False)"
| "preload_windows P ndevs (Suc n) inners =
     (case gpujoin_inner_preload_next P ndevs inners of
        Inl e \<Rightarrow> Inl e
      | Inr (None, _) \<Rightarrow> Inr ([], True)
      | Inr (Some pmrels, inners') \<Rightarrow>
          (case preload_windows P ndevs n inners' of
             Inl e \<Rightarrow> Inl e
           | Inr (ws, fin) \<Rightarrow> Inr (inner_chunks pmrels # ws, fin)))"

section \<open>The multi-relation buffer on the devices\<close>

text \<open>
  The driver calls that matter here, in the order they are issued. A device is its
  index \<^verbatim>\<open>cuda_index\<close>, a stream is the number of the task's \<^verbatim>\<open>cuda_stream\<close>.
  Driver calls are taken to return \<^verbatim>\<open>CUDA_SUCCESS\<close>; \<^verbatim>\<open>gpuMemAlloc\<close> may fail
  and then returns the pointer \<open>0\<close>.
\<close>

datatype kernel =
    KERN_preparation
  | KERN_exec_nestloop
  | KERN_exec_hashjoin
  | KERN_outer_nestloop
  | KERN_outer_hashjoin
  | KERN_projection

datatype gpu_call =
    AllocMirror nat
  | FreeMirror nat
  | AllocOjmap nat
  | ZeroOjmap nat
  | FreeOjmap nat
  | EventCreate nat
  | EventDestroy nat
  | UploadMirror nat nat
  | EventRecord nat nat
  | StreamWaitEvent nat nat
  | MemcpyPeer nat nat nat nat
  | LaunchKernel nat kernel nat
  | AllocTaskBuffer nat
  | FreeTaskBuffer nat
  | DmaSend nat
  | DmaRecv nat
  | AddCallback nat

text \<open>
  \<open>AllocMirror d\<close>, \<open>FreeMirror d\<close>: the inner-relations buffer \<^verbatim>\<open>m_kmrels[d]\<close>;
  \<open>AllocOjmap d\<close>, \<open>ZeroOjmap d\<close>, \<open>FreeOjmap d\<close>: the outer-join map
  \<^verbatim>\<open>m_ojmaps[d]\<close>; \<open>UploadMirror d s\<close>: the \<^verbatim>\<open>cuMemcpyHtoDAsync\<close> calls of
  \<^verbatim>\<open>multirels_send_buffer\<close> on stream \<open>s\<close>; \<open>MemcpyPeer s dst src depth\<close>: the
  \<^verbatim>\<open>cuMemcpyPeerAsync\<close> of \<^verbatim>\<open>multirels_colocate_outer_join_maps\<close>;
  \<open>LaunchKernel s k depth\<close>: \<^verbatim>\<open>cuLaunchKernel\<close>.

  The devices: the log of the calls, and for each device the bits that are set in its
  outer-join map (which inner rows some kernel has marked as matched).
\<close>

record gpu =
  gpu_log :: "gpu_call list"
  gpu_ojmap :: "nat \<Rightarrow> nat set"

definition gpu_issue :: "gpu \<Rightarrow> gpu_call list \<Rightarrow> gpu" where
  "gpu_issue g calls = g\<lparr>gpu_log := gpu_log g @ calls\<rparr>"

text \<open>\<^verbatim>\<open>multirels_attach_buffer\<close>.\<close>

definition multirels_attach_buffer :: "pgstrom_multirels \<Rightarrow> pgstrom_multirels" where
  "multirels_attach_buffer pmrels = pmrels\<lparr>n_attached := n_attached pmrels + 1\<rparr>"

text \<open>
  \<^verbatim>\<open>multirels_get_buffer\<close> on device \<open>cuda_index\<close>. \<open>a_kmrels\<close> and \<open>a_ojmaps\<close>
  are the pointers that the two calls of \<^verbatim>\<open>gpuMemAlloc\<close> return if they are made.
  The outputs \<^verbatim>\<open>*p_kmrels\<close> and \<^verbatim>\<open>*p_ojmaps\<close> are \<open>m_kmrels\<close> and \<open>m_ojmaps\<close> of
  the result at \<open>cuda_index\<close>.
\<close>

definition multirels_get_buffer ::
  "pgstrom_multirels \<Rightarrow> gpu \<Rightarrow> nat \<Rightarrow> nat \<Rightarrow> nat \<Rightarrow> bool \<times> pgstrom_multirels \<times> gpu" where
  "multirels_get_buffer pmrels g cuda_index a_kmrels a_ojmaps =
     (if refcnt pmrels cuda_index = 0
      then
        (if a_kmrels = 0 then (False, pmrels, g)
         else if ojmap_length pmrels > 0 \<and> m_ojmaps pmrels cuda_index = 0
         then
           (if a_ojmaps = 0
            then (False, pmrels, gpu_issue g [AllocMirror cuda_index, FreeMirror cuda_index])
            else (True,
                  pmrels\<lparr> m_ojmaps := (m_ojmaps pmrels)(cuda_index := a_ojmaps),
                          m_kmrels := (m_kmrels pmrels)(cuda_index := a_kmrels),
                          refcnt := (refcnt pmrels)(cuda_index := refcnt pmrels cuda_index + 1) \<rparr>,
                  (gpu_issue g [AllocMirror cuda_index, AllocOjmap cuda_index, ZeroOjmap cuda_index])
                    \<lparr>gpu_ojmap := (gpu_ojmap g)(cuda_index := {})\<rparr>))
         else (True,
               pmrels\<lparr> m_kmrels := (m_kmrels pmrels)(cuda_index := a_kmrels),
                       refcnt := (refcnt pmrels)(cuda_index := refcnt pmrels cuda_index + 1) \<rparr>,
               gpu_issue g [AllocMirror cuda_index]))
      else (True,
            pmrels\<lparr>refcnt := (refcnt pmrels)(cuda_index := refcnt pmrels cuda_index + 1)\<rparr>,
            g))"

text \<open>\<^verbatim>\<open>multirels_put_buffer\<close> on device \<open>cuda_index\<close>.\<close>

definition multirels_put_buffer ::
  "pgstrom_multirels \<Rightarrow> gpu \<Rightarrow> nat \<Rightarrow> pgstrom_multirels \<times> gpu" where
  "multirels_put_buffer pmrels g cuda_index =
     (let pm = pmrels\<lparr>refcnt := (refcnt pmrels)(cuda_index := refcnt pmrels cuda_index - 1)\<rparr>
      in if refcnt pm cuda_index = 0
         then (pm\<lparr> m_kmrels := (m_kmrels pm)(cuda_index := 0),
                   ev_loaded := (ev_loaded pm)(cuda_index := 0) \<rparr>,
               gpu_issue g (FreeMirror cuda_index #
                  (if ev_loaded pm cuda_index \<noteq> 0 then [EventDestroy cuda_index] else [])))
         else (pm, g))"

text \<open>
  \<^verbatim>\<open>multirels_send_buffer\<close> on device \<open>cuda_index\<close> and stream \<open>stream\<close>; \<open>ev\<close> is
  the handle that \<^verbatim>\<open>cuEventCreate\<close> returns if it is called.
\<close>

definition multirels_send_buffer ::
  "pgstrom_multirels \<Rightarrow> gpu \<Rightarrow> nat \<Rightarrow> nat \<Rightarrow> nat \<Rightarrow> pgstrom_multirels \<times> gpu" where
  "multirels_send_buffer pmrels g cuda_index stream ev =
     (if ev_loaded pmrels cuda_index = 0
      then (pmrels\<lparr>ev_loaded := (ev_loaded pmrels)(cuda_index := ev)\<rparr>,
            gpu_issue g [EventCreate cuda_index, UploadMirror cuda_index stream,
                         EventRecord cuda_index stream])
      else (pmrels, gpu_issue g [StreamWaitEvent cuda_index stream]))"

text \<open>
  \<^verbatim>\<open>multirels_colocate_outer_join_maps\<close> for \<open>depth\<close> on device \<open>cuda_index\<close>: one
  peer copy from every other device whose outer-join map is allocated, into the slot
  that the target's map keeps for that device.
\<close>

definition multirels_colocate_outer_join_maps ::
  "pgstrom_multirels \<Rightarrow> nat \<Rightarrow> nat \<Rightarrow> nat \<Rightarrow> nat \<Rightarrow> gpu_call list" where
  "multirels_colocate_outer_join_maps pmrels num_context cuda_index stream depth =
     map (\<lambda>i. MemcpyPeer stream cuda_index i depth)
       (filter (\<lambda>i. i \<noteq> cuda_index \<and> m_ojmaps pmrels i \<noteq> 0) [0 ..< num_context])"

section \<open>Tasks and the result-buffer sizing\<close>

datatype kds_format = KDS_FORMAT_ROW | KDS_FORMAT_SLOT | KDS_FORMAT_OTHER int

datatype errcode = StromError_Success | StromError_DataStoreNoSpace | StromError_Other int

text \<open>
  \<^verbatim>\<open>kern_gpujoin\<close> (the field \<^verbatim>\<open>kern\<close> of a task), with the head of its first
  \<^verbatim>\<open>kern_resultbuf\<close> (\<^verbatim>\<open>KERN_GPUJOIN_IN_RESULTS(kgjoin, 1)\<close>).
\<close>

record kern_gpujoin =
  kresults_1_offset :: nat
  kresults_2_offset :: nat
  kresults_total_items :: nat
  kresults_max_items :: nat
  kern_num_rels :: nat
  kern_start_depth :: nat
  kern_kerror :: errcode
  kern_outer_nitems :: "nat \<Rightarrow> nat"
  kresults_in_nrels :: nat
  kresults_in_nrooms :: nat
  kresults_in_nitems :: nat

text \<open>
  \<^verbatim>\<open>pgstrom_gpujoin\<close>. The buffer \<^verbatim>\<open>pgjoin->pmrels\<close> that the task is attached
  to is an argument of the functions that use it.
\<close>

record pgstrom_gpujoin =
  task_kerror :: errcode
  cuda_index :: nat
  cuda_stream :: nat
  m_kgjoin :: nat
  task_m_kmrels :: nat
  task_m_ojmaps :: nat
  oitems_base :: nat
  oitems_nums :: nat
  pds_src :: "pgstrom_data_store option"
  pds_dst :: "pgstrom_data_store option"
  kern :: kern_gpujoin

text \<open>
  \<^verbatim>\<open>GpuJoinState\<close>: the depths, the run-time statistics, the planner's numbers, the
  pending queue of \<^verbatim>\<open>gts\<close>, and the number \<^verbatim>\<open>num_context\<close> of devices.
  \<open>outer_plan_nrows\<close> is \<^verbatim>\<open>outerPlanState(gjs)->plan->plan_rows\<close>, \<open>gjs_ncols\<close> the
  number of columns of the scan tuple descriptor. A join has at least one depth.
\<close>

record GpuJoinState =
  num_rels :: nat
  inners :: "innerState list"
  source_nitems :: nat
  outer_nitems :: "nat \<Rightarrow> nat"
  gjs_kresults_ratio :: real
  result_format :: kds_format
  result_width :: nat
  outer_join_start_depth :: nat
  outer_plan_nrows :: real
  kern_params_length :: nat
  gjs_ncols :: nat
  pending_tasks :: "pgstrom_gpujoin list"
  num_pending_tasks :: nat
  num_context :: nat

text \<open>Unsigned subtraction of \<^verbatim>\<open>cl_uint\<close> and \<^verbatim>\<open>Size\<close> values.\<close>

definition u32_sub :: "nat \<Rightarrow> nat \<Rightarrow> nat" where
  "u32_sub a b = (a + 2 ^ 32 - b mod 2 ^ 32) mod 2 ^ 32"

definition size_sub :: "nat \<Rightarrow> nat \<Rightarrow> nat" where
  "size_sub a b = (a + 2 ^ 64 - b mod 2 ^ 64) mod 2 ^ 64"

definition INT_MAX :: nat where
  "INT_MAX = 2147483647"

text \<open>
  One iteration of the loop of \<^verbatim>\<open>compute_outer_ntuples_OJ\<close> (lines 3723-3761) at
  depth \<open>i\<close>, on the pair (\<^verbatim>\<open>ntuples\<close>, \<^verbatim>\<open>kresults_ratio\<close>). \<open>oitems\<close> is
  \<^verbatim>\<open>pgjoin->oitems_nums\<close>, by which the loop divides.
\<close>

definition outer_ntuples_OJ_step ::
  "platform \<Rightarrow> GpuJoinState \<Rightarrow> pgstrom_multirels \<Rightarrow> nat \<Rightarrow> nat \<Rightarrow> real \<times> real \<Rightarrow> real \<times> real" where
  "outer_ntuples_OJ_step P gjs pmrels oitems i acc =
     (let istate = inners gjs ! (i - 1);
          exec_nrows_ratio =
            (if outer_nitems gjs (i - 1) > 0
             then ddiv (real (outer_nitems gjs i)) (real (outer_nitems gjs (i - 1)))
             else (if outer_nitems gjs i > 0 then 1 else 0));
          n1 = (if i > outer_join_start_depth gjs
                then dmul (fst acc) (dmul exec_nrows_ratio (pgstrom_chunk_size_margin P))
                else fst acc);
          n2 = (if join_type istate = JOIN_RIGHT \<or> join_type istate = JOIN_FULL
                then dadd n1 (dmul (dmul (dsub 1 (min exec_nrows_ratio 1))
                                      (pgstrom_chunk_size_margin P))
                                (real (kds_nitems (inner_chunks pmrels ! (i - 1)))))
                else n1)
      in (n2, max (snd acc) (ddiv (dmul (real (i + 1)) n2) (real oitems))))"

text \<open>
  \<^verbatim>\<open>compute_outer_ntuples_OJ\<close>: the converted \<^verbatim>\<open>ntuples\<close> and
  \<^verbatim>\<open>*p_kresults_ratio\<close>. A division of doubles by zero leaves the model
  (\<open>UNDEF_DoubleDivideByZero\<close>): the code goes on with an infinity or a NaN.
\<close>

definition compute_outer_ntuples_OJ ::
  "platform \<Rightarrow> GpuJoinState \<Rightarrow> pgstrom_multirels \<Rightarrow> pgstrom_gpujoin \<Rightarrow> nat
     \<Rightarrow> error + nat \<times> real" where
  "compute_outer_ntuples_OJ P gjs pmrels pgjoin depth =
     (if oitems_nums pgjoin = 0 \<and> outer_join_start_depth gjs < depth
      then Inl UNDEF_DoubleDivideByZero
      else (let r = fold (outer_ntuples_OJ_step P gjs pmrels (oitems_nums pgjoin))
                      [outer_join_start_depth gjs ..< depth] (0, 0)
            in Inr (double_to_size (fst r), snd r)))"

text \<open>
  Lines 2995-3071 of \<^verbatim>\<open>gpujoin_attach_result_buffer\<close>: the number of outer rows
  that remain, and the fresh predictions \<^verbatim>\<open>kresults_ratio\<close> and
  \<^verbatim>\<open>dst_nrows_ratio\<close>.
\<close>

definition fresh_estimate ::
  "platform \<Rightarrow> GpuJoinState \<Rightarrow> pgstrom_multirels \<Rightarrow> pgstrom_gpujoin
     \<Rightarrow> error + nat \<times> real \<times> real" where
  "fresh_estimate P gjs pmrels pgjoin =
     (case pds_src pgjoin of
        Some src \<Rightarrow>
          (let n = u32_sub (kds_nitems src) (oitems_base pgjoin);
               i_last = num_rels gjs - 1;
               kresults_ratio_plan = double_round (gjs_kresults_ratio gjs);
               dst_nrows_ratio_plan = double_round (nrows_ratio (inners gjs ! i_last))
           in if source_nitems gjs = 0
              then Inr (n, kresults_ratio_plan, dst_nrows_ratio_plan)
              else
                (let kresults_ratio_exec =
                       fold (\<lambda>i r. max r (ddiv (dmul (real (i + 1)) (real (outer_nitems gjs 0)))
                                              (real (source_nitems gjs))))
                         [1 ..< num_rels gjs + 1]
                         (ddiv (real (outer_nitems gjs 0)) (real (source_nitems gjs)));
                     dst_nrows_ratio_exec =
                       ddiv (real (outer_nitems gjs i_last)) (real (source_nitems gjs))
                 in if source_nitems gjs \<ge> double_to_size (dmul 0.30 (outer_plan_nrows gjs))
                    then Inr (n, kresults_ratio_exec, dst_nrows_ratio_exec)
                    else
                      (let merge_ratio = ddiv (real (source_nitems gjs))
                                           (dmul 0.30 (outer_plan_nrows gjs))
                       in Inr (n,
                               dadd (dmul kresults_ratio_exec merge_ratio)
                                    (dmul kresults_ratio_plan (dsub 1 merge_ratio)),
                               dadd (dmul dst_nrows_ratio_exec merge_ratio)
                                    (dmul dst_nrows_ratio_plan (dsub 1 merge_ratio))))))
      | None \<Rightarrow>
          (let pds_in = inner_chunks pmrels ! (outer_join_start_depth gjs - 1);
               n = u32_sub (kds_nitems pds_in) (oitems_base pgjoin)
           in case compute_outer_ntuples_OJ P gjs pmrels pgjoin (num_rels gjs + 1) of
                Inl e \<Rightarrow> Inl e
              | Inr (nt, kr) \<Rightarrow>
                  if n = 0 then Inl UNDEF_DoubleDivideByZero
                  else Inr (n, kr, ddiv (real nt) (real n))))"

text \<open>
  Lines 3073-3082: in a re-execution (the task has a destination buffer) each
  prediction is raised to what the previous attempt reached.
\<close>

definition retry_estimate ::
  "pgstrom_gpujoin \<Rightarrow> real \<times> real \<Rightarrow> error + real \<times> real" where
  "retry_estimate pgjoin rs =
     (case pds_dst pgjoin of
        None \<Rightarrow> Inr rs
      | Some dst \<Rightarrow>
          if oitems_nums pgjoin = 0 then Inl UNDEF_DoubleDivideByZero
          else
            (let kresults_ratio_prev =
                   ddiv (real (kresults_max_items (kern pgjoin))) (real (oitems_nums pgjoin));
                 dst_nrows_ratio_prev =
                   ddiv (real (kds_nitems dst)) (real (oitems_nums pgjoin))
             in Inr (max (fst rs) kresults_ratio_prev, max (snd rs) dst_nrows_ratio_prev)))"

text \<open>
  Lines 3088-3115: \<^verbatim>\<open>total_items\<close> as it is predicted, the length of
  \<^verbatim>\<open>kern_gpujoin\<close> with its two result buffers, and the reduction of the outer rows
  when that length exceeds \<^verbatim>\<open>pgstrom_chunk_size()\<close>. The result of
  \<open>resultbuf_sizing\<close> is the number of outer rows and \<^verbatim>\<open>total_items\<close>.
\<close>

definition predicted_total_items :: "platform \<Rightarrow> real \<Rightarrow> nat \<Rightarrow> nat" where
  "predicted_total_items P kresults_ratio n =
     double_to_size (dmul (dmul kresults_ratio (real n)) (pgstrom_chunk_size_margin P))"

definition kgjoin_head :: "platform \<Rightarrow> GpuJoinState \<Rightarrow> nat" where
  "kgjoin_head P gjs = gpujoin_kparams_off P + STROMALIGN P (kern_params_length gjs)"

definition resultbuf_length :: "platform \<Rightarrow> nat \<Rightarrow> nat" where
  "resultbuf_length P n = STROMALIGN P (resultbuf_head P + 4 * n)"

definition kgjoin_length :: "platform \<Rightarrow> GpuJoinState \<Rightarrow> nat \<Rightarrow> nat" where
  "kgjoin_length P gjs total_items =
     kgjoin_head P gjs + resultbuf_length P total_items + resultbuf_length P total_items"

definition reduced_items :: "platform \<Rightarrow> GpuJoinState \<Rightarrow> nat" where
  "reduced_items P gjs =
     size_sub (size_sub (pgstrom_chunk_size P) (kgjoin_head P gjs) div 2)
              (resultbuf_length P 0) div 4"

definition reduced_oitems_nums :: "platform \<Rightarrow> GpuJoinState \<Rightarrow> nat \<Rightarrow> nat \<Rightarrow> nat" where
  "reduced_oitems_nums P gjs n total_items =
     double_to_size (ddiv (dmul (real n) (real (reduced_items P gjs))) (real total_items))"

definition resultbuf_sizing ::
  "platform \<Rightarrow> GpuJoinState \<Rightarrow> nat \<Rightarrow> real \<Rightarrow> error + nat \<times> nat" where
  "resultbuf_sizing P gjs n kresults_ratio =
     (let total_items = predicted_total_items P kresults_ratio n
      in if kgjoin_length P gjs total_items > pgstrom_chunk_size P
         then
           (if total_items = 0 then Inl UNDEF_DoubleDivideByZero
            else
              (let n' = reduced_oitems_nums P gjs n total_items
               in if n' < 1 then Inl ERR_KresultsGrowthRatioTooLarge
                  else Inr (n', reduced_items P gjs)))
         else Inr (n, total_items))"

text \<open>
  The re-initialisation of a destination store \<^verbatim>\<open>kds_dst\<close> in a re-execution (lines
  3214-3242 and 3305-3327): in place if the new length fits, in a new allocation with
  the copied head otherwise.
\<close>

definition reset_dst :: "pgstrom_data_store \<Rightarrow> nat \<Rightarrow> nat \<Rightarrow> pgstrom_data_store" where
  "reset_dst kds_dst new_length nrooms =
     (if new_length \<le> kds_length kds_dst
      then kds_dst\<lparr> kds_usage := 0, kds_nitems := 0, kds_nrooms := nrooms \<rparr>
      else kds_dst\<lparr> kds_length := new_length, kds_usage := 0, kds_nitems := 0,
                    kds_nrooms := nrooms \<rparr>)"

text \<open>
  Line 3147: \<^verbatim>\<open>result_nitems\<close> as it is predicted for \<open>n\<close> outer rows.
\<close>

definition predicted_result_nitems :: "platform \<Rightarrow> nat \<Rightarrow> real \<Rightarrow> nat" where
  "predicted_result_nitems P n dst_nrows_ratio =
     double_to_size (dmul (dmul (real n) dst_nrows_ratio) (pgstrom_chunk_size_margin P))"

text \<open>
  Lines 3150-3244, the destination store in slot format: the length of a store of
  \<open>nitems\<close> slots, the number of slots that fit the limit, the reduced number of outer
  rows, and the branch itself, which gives the number of outer rows and the store.
\<close>

definition slot_width :: "nat \<Rightarrow> nat" where
  "slot_width nc = LONGALIGN ((8 + 1) * nc)"

definition slot_length :: "platform \<Rightarrow> GpuJoinState \<Rightarrow> nat \<Rightarrow> nat" where
  "slot_length P gjs nitems =
     STROMALIGN P (kds_colmeta_off P (gjs_ncols gjs)) + slot_width (gjs_ncols gjs) * nitems"

definition slot_small_nitems :: "platform \<Rightarrow> GpuJoinState \<Rightarrow> nat" where
  "slot_small_nitems P gjs =
     size_sub (pgstrom_chunk_size_limit P) (STROMALIGN P (kds_colmeta_off P (gjs_ncols gjs)))
       div slot_width (gjs_ncols gjs)"

definition slot_reduced_oitems_nums :: "platform \<Rightarrow> GpuJoinState \<Rightarrow> nat \<Rightarrow> nat \<Rightarrow> nat" where
  "slot_reduced_oitems_nums P gjs n result_nitems =
     double_to_size (ddiv (dmul (real n) (real (slot_small_nitems P gjs))) (real result_nitems))"

definition dst_sizing_slot ::
  "platform \<Rightarrow> GpuJoinState \<Rightarrow> pgstrom_gpujoin \<Rightarrow> nat \<Rightarrow> real
     \<Rightarrow> error + nat \<times> pgstrom_data_store" where
  "dst_sizing_slot P gjs pgjoin n dst_nrows_ratio =
     (let result_nitems = predicted_result_nitems P n dst_nrows_ratio;
          adjusted =
            (if gjs_ncols gjs = 0 then Inr (n, INT_MAX)
             else if slot_length P gjs result_nitems < pgstrom_chunk_size P div 4
             then Inr (n, size_sub (pgstrom_chunk_size P div 4)
                             (STROMALIGN P (kds_colmeta_off P (gjs_ncols gjs)))
                           div slot_width (gjs_ncols gjs))
             else if slot_length P gjs result_nitems > pgstrom_chunk_size_limit P
             then
               (if result_nitems = 0 then Inl UNDEF_DoubleDivideByZero
                else
                  (let n' = slot_reduced_oitems_nums P gjs n result_nitems
                   in if n' < 1 then Inl ERR_TooMuchGrowthOfResults
                      else Inr (n', slot_small_nitems P gjs)))
             else Inr (n, result_nitems))
      in case adjusted of
           Inl e \<Rightarrow> Inl e
         | Inr (n', nitems') \<Rightarrow>
             (case pds_dst pgjoin of
                None \<Rightarrow> Inr (n', create_data_store_slot P nitems')
              | Some kds_dst \<Rightarrow>
                  Inr (n', reset_dst kds_dst (slot_length P gjs nitems') nitems')))"

text \<open>
  Lines 3245-3329, the destination store in row format. The average width of a result
  row of the previous attempt divides by its \<^verbatim>\<open>nitems\<close>, in integer arithmetic.
  The number of outer rows is not changed in this branch.
\<close>

definition dst_sizing_row ::
  "platform \<Rightarrow> GpuJoinState \<Rightarrow> pgstrom_gpujoin \<Rightarrow> nat \<Rightarrow> real
     \<Rightarrow> error + nat \<times> pgstrom_data_store" where
  "dst_sizing_row P gjs pgjoin n dst_nrows_ratio =
     (let result_nitems = predicted_result_nitems P n dst_nrows_ratio;
          head = STROMALIGN P (kds_colmeta_off P (gjs_ncols gjs));
          width =
            (case pds_dst pgjoin of
               None \<Rightarrow> Inr (result_width gjs)
             | Some kds_dst \<Rightarrow>
                 if kds_nitems kds_dst = 0 then Inl TRAP_DivideByZero
                 else Inr (MAXALIGN
                        (size_sub (size_sub (kds_usage kds_dst)
                                     (KERN_DATA_STORE_HEAD_LENGTH P (gjs_ncols gjs)))
                                  (4 * kds_nitems kds_dst)
                           div kds_nitems kds_dst)))
      in case width of
           Inl e \<Rightarrow> Inl e
         | Inr w \<Rightarrow>
             (let new_length = head + STROMALIGN P (4 * result_nitems)
                                 + MAXALIGN (tupitem_htup_off P + w) * result_nitems;
                  adjusted =
                    (if new_length < pgstrom_chunk_size P div 4
                     then Inr (pgstrom_chunk_size P div 4)
                     else if new_length > pgstrom_chunk_size_limit P
                     then (if n < 1 then Inl ERR_TooMuchGrowthOfResults
                           else Inr (pgstrom_chunk_size_limit P))
                     else Inr new_length)
              in case adjusted of
                   Inl e \<Rightarrow> Inl e
                 | Inr len \<Rightarrow>
                     (case pds_dst pgjoin of
                        None \<Rightarrow> Inr (n, create_data_store_row P len)
                      | Some kds_dst \<Rightarrow> Inr (n, reset_dst kds_dst len INT_MAX))))"

text \<open>
  \<^verbatim>\<open>gpujoin_attach_result_buffer\<close> for the task \<open>pgjoin\<close>, attached to \<open>pmrels\<close>.
\<close>

definition gpujoin_attach_result_buffer ::
  "platform \<Rightarrow> GpuJoinState \<Rightarrow> pgstrom_multirels \<Rightarrow> pgstrom_gpujoin
     \<Rightarrow> error + pgstrom_gpujoin" where
  "gpujoin_attach_result_buffer P gjs pmrels pgjoin =
     (case fresh_estimate P gjs pmrels pgjoin of
        Inl e \<Rightarrow> Inl e
      | Inr (n0, rs0) \<Rightarrow>
          (case retry_estimate pgjoin rs0 of
             Inl e \<Rightarrow> Inl e
           | Inr (kresults_ratio, dst_nrows_ratio) \<Rightarrow>
               (case resultbuf_sizing P gjs n0 kresults_ratio of
                  Inl e \<Rightarrow> Inl e
                | Inr (n1, total_items) \<Rightarrow>
                    (let k = (kern pgjoin)\<lparr>
                           kresults_1_offset := kgjoin_head P gjs,
                           kresults_2_offset := kgjoin_head P gjs + resultbuf_length P total_items,
                           kresults_total_items := total_items,
                           kresults_max_items := 0,
                           kern_num_rels := num_rels gjs,
                           kern_start_depth := outer_join_start_depth gjs,
                           kern_kerror := StromError_Success,
                           kresults_in_nrels := 1,
                           kresults_in_nrooms := total_items,
                           kresults_in_nitems := 0 \<rparr>;
                         dst = (case result_format gjs of
                                  KDS_FORMAT_SLOT \<Rightarrow> dst_sizing_slot P gjs pgjoin n1 dst_nrows_ratio
                                | KDS_FORMAT_ROW \<Rightarrow> dst_sizing_row P gjs pgjoin n1 dst_nrows_ratio
                                | KDS_FORMAT_OTHER _ \<Rightarrow> Inl ERR_UnexpectedResultFormat)
                     in case dst of
                          Inl e \<Rightarrow> Inl e
                        | Inr (n2, kds) \<Rightarrow>
                            Inr (pgjoin\<lparr> kern := k, pds_dst := Some kds, oitems_nums := n2 \<rparr>)))))"

text \<open>
  \<^verbatim>\<open>gpujoin_create_task\<close>: the new task, attached to \<open>pmrels\<close>, and the buffer with
  its attach count raised.
\<close>

definition empty_kern :: kern_gpujoin where
  "empty_kern = \<lparr> kresults_1_offset = 0, kresults_2_offset = 0, kresults_total_items = 0,
                  kresults_max_items = 0, kern_num_rels = 0, kern_start_depth = 0,
                  kern_kerror = StromError_Success, kern_outer_nitems = (\<lambda>_. 0),
                  kresults_in_nrels = 0, kresults_in_nrooms = 0, kresults_in_nitems = 0 \<rparr>"

definition gpujoin_create_task ::
  "platform \<Rightarrow> GpuJoinState \<Rightarrow> pgstrom_multirels \<Rightarrow> pgstrom_data_store option \<Rightarrow> nat
     \<Rightarrow> error + pgstrom_gpujoin \<times> pgstrom_multirels" where
  "gpujoin_create_task P gjs pmrels src base =
     (let pmrels' = multirels_attach_buffer pmrels;
          pgjoin = \<lparr> task_kerror = StromError_Success, cuda_index = 0, cuda_stream = 0,
                     m_kgjoin = 0, task_m_kmrels = 0, task_m_ojmaps = 0,
                     oitems_base = base, oitems_nums = 4025479151,
                     pds_src = src, pds_dst = None, kern = empty_kern \<rparr>
      in case gpujoin_attach_result_buffer P gjs pmrels' pgjoin of
           Inl e \<Rightarrow> Inl e
         | Inr pgjoin' \<Rightarrow> Inr (pgjoin', pmrels'))"

section \<open>Detaching a buffer, and the life of a task\<close>

text \<open>
  \<^verbatim>\<open>multirels_detach_buffer\<close>. The outer-join task is made by
  \<^verbatim>\<open>gpujoin_create_task(gjs, pmrels, NULL, 0)\<close>, which attaches it to the buffer, and
  goes to the tail of the pending queue. When the attach count reaches zero the
  outer-join maps of all devices are freed and the buffer is released.
\<close>

definition multirels_detach_buffer ::
  "platform \<Rightarrow> GpuJoinState \<Rightarrow> pgstrom_multirels \<Rightarrow> gpu \<Rightarrow> bool
     \<Rightarrow> error + GpuJoinState \<times> pgstrom_multirels \<times> gpu" where
  "multirels_detach_buffer P gjs pmrels g may_kick_outer_join =
     (case (if may_kick_outer_join \<and> n_attached pmrels = 1 \<and> outer_join_kicked pmrels = False
            then (case gpujoin_create_task P gjs pmrels None 0 of
                    Inl e \<Rightarrow> Inl e
                  | Inr (pgjoin_new, pm) \<Rightarrow>
                      Inr (gjs\<lparr> pending_tasks := pending_tasks gjs @ [pgjoin_new],
                                num_pending_tasks := num_pending_tasks gjs + 1 \<rparr>,
                           pm\<lparr>outer_join_kicked := True\<rparr>))
            else Inr (gjs, pmrels)) of
        Inl e \<Rightarrow> Inl e
      | Inr (gjs', pm) \<Rightarrow>
          (let pm' = pm\<lparr>n_attached := n_attached pm - 1\<rparr>
           in if n_attached pm' = 0
              then Inr (gjs', pm'\<lparr>released := True\<rparr>,
                        gpu_issue g (map FreeOjmap
                          (filter (\<lambda>i. m_ojmaps pm' i \<noteq> 0) [0 ..< num_context gjs'])))
              else Inr (gjs', pm', g)))"

text \<open>\<^verbatim>\<open>gpujoin_cleanup_cuda_resources\<close>.\<close>

definition gpujoin_cleanup_cuda_resources ::
  "pgstrom_multirels \<Rightarrow> gpu \<Rightarrow> pgstrom_gpujoin \<Rightarrow> pgstrom_multirels \<times> gpu \<times> pgstrom_gpujoin" where
  "gpujoin_cleanup_cuda_resources pmrels g pgjoin =
     (let g1 = (if m_kgjoin pgjoin \<noteq> 0 then gpu_issue g [FreeTaskBuffer (cuda_index pgjoin)]
                else g);
          r = (if task_m_kmrels pgjoin \<noteq> 0
               then multirels_put_buffer pmrels g1 (cuda_index pgjoin)
               else (pmrels, g1))
      in (fst r, snd r, pgjoin\<lparr> m_kgjoin := 0, task_m_kmrels := 0 \<rparr>))"

text \<open>\<^verbatim>\<open>gpujoin_task_release\<close>; the task object is gone afterwards.\<close>

definition gpujoin_task_release ::
  "platform \<Rightarrow> GpuJoinState \<Rightarrow> pgstrom_multirels \<Rightarrow> gpu \<Rightarrow> pgstrom_gpujoin
     \<Rightarrow> error + GpuJoinState \<times> pgstrom_multirels \<times> gpu" where
  "gpujoin_task_release P gjs pmrels g pgjoin =
     (case gpujoin_cleanup_cuda_resources pmrels g pgjoin of
        (pm, g', _) \<Rightarrow> multirels_detach_buffer P gjs pm g' False)"

text \<open>
  \<^verbatim>\<open>gpujoin_task_complete\<close>: the return value, the state, the buffer, the devices
  and the completed task. The sums of \<^verbatim>\<open>cl_uint\<close> values are taken modulo
  \<open>2^32\<close>.
\<close>

definition gpujoin_task_complete ::
  "platform \<Rightarrow> GpuJoinState \<Rightarrow> pgstrom_multirels \<Rightarrow> gpu \<Rightarrow> pgstrom_gpujoin
     \<Rightarrow> error + bool \<times> GpuJoinState \<times> pgstrom_multirels \<times> gpu \<times> pgstrom_gpujoin" where
  "gpujoin_task_complete P gjs pmrels g pgjoin0 =
     (case gpujoin_cleanup_cuda_resources pmrels g pgjoin0 of
        (pm, g', pgjoin) \<Rightarrow>
          (case task_kerror pgjoin of
             StromError_Success \<Rightarrow>
               (case pds_src pgjoin of
                  None \<Rightarrow> Inl TRAP_NullDereference
                | Some src \<Rightarrow>
                    (let reached = (oitems_base pgjoin + oitems_nums pgjoin) mod 2 ^ 32;
                         gjs1 = gjs\<lparr>
                           source_nitems := source_nitems gjs
                              + u32_sub (min reached (kds_nitems src)) (oitems_base pgjoin),
                           outer_nitems := (\<lambda>i. if i \<le> kern_num_rels (kern pgjoin)
                              then outer_nitems gjs i + kern_outer_nitems (kern pgjoin) i
                              else outer_nitems gjs i) \<rparr>
                     in if reached < kds_nitems src
                        then (case gpujoin_create_task P gjs1 pm (Some src) reached of
                                Inl e \<Rightarrow> Inl e
                              | Inr (pgjoin_new, pm') \<Rightarrow>
                                  Inr (True,
                                       gjs1\<lparr> pending_tasks := pending_tasks gjs1 @ [pgjoin_new],
                                             num_pending_tasks := num_pending_tasks gjs1 + 1 \<rparr>,
                                       pm', g', pgjoin\<lparr>pds_src := None\<rparr>))
                        else Inr (True, gjs1, pm, g', pgjoin)))
           | StromError_DataStoreNoSpace \<Rightarrow>
               (case gpujoin_attach_result_buffer P gjs pm pgjoin of
                  Inl e \<Rightarrow> Inl e
                | Inr pgjoin' \<Rightarrow>
                    Inr (False,
                         gjs\<lparr> pending_tasks := pgjoin' # pending_tasks gjs,
                              num_pending_tasks := num_pending_tasks gjs + 1 \<rparr>,
                         pm, g', pgjoin'))
           | StromError_Other _ \<Rightarrow> Inr (True, gjs, pm, g', pgjoin)))"

section \<open>The kernel launches of a task\<close>

text \<open>
  One iteration of the loop over the depths in \<^verbatim>\<open>__gpujoin_task_process\<close> (lines
  3988-4242): the driver calls it issues on the task's stream, in order.
\<close>

definition depth_calls ::
  "GpuJoinState \<Rightarrow> pgstrom_multirels \<Rightarrow> pgstrom_gpujoin \<Rightarrow> nat \<Rightarrow> gpu_call list" where
  "depth_calls gjs pmrels pgjoin depth =
     (let istate = inners gjs ! (depth - 1);
          jt = join_type istate;
          is_nestloop = (\<not> hash_join istate);
          s = cuda_stream pgjoin
      in [LaunchKernel s KERN_preparation depth] @
         (if pds_src pgjoin \<noteq> None \<or> depth > outer_join_start_depth gjs
          then [LaunchKernel s (if is_nestloop then KERN_exec_nestloop else KERN_exec_hashjoin) depth]
          else []) @
         (if jt = JOIN_RIGHT \<or> jt = JOIN_FULL
          then multirels_colocate_outer_join_maps pmrels (num_context gjs) (cuda_index pgjoin) s depth @
               [LaunchKernel s (if is_nestloop then KERN_outer_nestloop else KERN_outer_hashjoin) depth]
          else []))"

text \<open>
  The calls from the first kernel launch to the projection (lines 3987-4276); the
  projection kernel is logged with depth \<open>num_rels + 1\<close>.
\<close>

definition kernel_calls ::
  "GpuJoinState \<Rightarrow> pgstrom_multirels \<Rightarrow> pgstrom_gpujoin \<Rightarrow> gpu_call list" where
  "kernel_calls gjs pmrels pgjoin =
     concat (map (depth_calls gjs pmrels pgjoin)
               [outer_join_start_depth gjs ..< num_rels gjs + 1]) @
     [LaunchKernel (cuda_stream pgjoin) KERN_projection (num_rels gjs + 1)]"

text \<open>
  \<^verbatim>\<open>__gpujoin_task_process\<close>. \<open>a_kgjoin\<close> is the pointer that \<^verbatim>\<open>gpuMemAlloc\<close>
  returns for the task's buffers, \<open>ev\<close> the event handle for
  \<^verbatim>\<open>multirels_send_buffer\<close>.
\<close>

definition gpujoin_task_process_inner ::
  "GpuJoinState \<Rightarrow> pgstrom_multirels \<Rightarrow> gpu \<Rightarrow> pgstrom_gpujoin \<Rightarrow> nat \<Rightarrow> nat
     \<Rightarrow> bool \<times> pgstrom_multirels \<times> gpu \<times> pgstrom_gpujoin" where
  "gpujoin_task_process_inner gjs pmrels g pgjoin a_kgjoin ev =
     (if a_kgjoin = 0
      then (case gpujoin_cleanup_cuda_resources pmrels g pgjoin of
              (pm, g', pgjoin') \<Rightarrow> (False, pm, g', pgjoin'))
      else
        (let s = cuda_stream pgjoin;
             g1 = gpu_issue g [AllocTaskBuffer (cuda_index pgjoin)];
             sent = multirels_send_buffer pmrels g1 (cuda_index pgjoin) s ev;
             g2 = gpu_issue (snd sent)
                    ([DmaSend s] @ (if pds_src pgjoin \<noteq> None then [DmaSend s] else []) @ [DmaSend s]);
             g3 = gpu_issue g2 (kernel_calls gjs (fst sent) pgjoin);
             g4 = gpu_issue g3 [DmaRecv s, DmaRecv s, AddCallback s]
         in (True, fst sent, g4, pgjoin\<lparr>m_kgjoin := a_kgjoin\<rparr>)))"

text \<open>\<^verbatim>\<open>gpujoin_task_process\<close>: the buffer is taken on the task's device first.\<close>

definition gpujoin_task_process ::
  "GpuJoinState \<Rightarrow> pgstrom_multirels \<Rightarrow> gpu \<Rightarrow> pgstrom_gpujoin \<Rightarrow> nat \<Rightarrow> nat \<Rightarrow> nat \<Rightarrow> nat
     \<Rightarrow> bool \<times> pgstrom_multirels \<times> gpu \<times> pgstrom_gpujoin" where
  "gpujoin_task_process gjs pmrels g pgjoin a_kmrels a_ojmaps a_kgjoin ev =
     (case multirels_get_buffer pmrels g (cuda_index pgjoin) a_kmrels a_ojmaps of
        (False, pm, g') \<Rightarrow> (False, pm, g', pgjoin)
      | (True, pm, g') \<Rightarrow>
          gpujoin_task_process_inner gjs pm g'
            (pgjoin\<lparr> task_m_kmrels := m_kmrels pm (cuda_index pgjoin),
                     task_m_ojmaps := m_ojmaps pm (cuda_index pgjoin) \<rparr>)
            a_kgjoin ev)"

section \<open>The life of a buffer as a sequence of calls\<close>

text \<open>
  The calls that the engine makes on one buffer: \<^verbatim>\<open>multirels_attach_buffer\<close>,
  \<^verbatim>\<open>multirels_detach_buffer\<close> with its flag, and for a task on a device
  \<^verbatim>\<open>multirels_get_buffer\<close> (with what \<^verbatim>\<open>gpuMemAlloc\<close> returns),
  \<^verbatim>\<open>multirels_send_buffer\<close> (with the stream and the new event handle) and
  \<^verbatim>\<open>multirels_put_buffer\<close>. \<open>OpMark d rows\<close> is a probe kernel of a task on
  device \<open>d\<close> that sets the bits of \<open>rows\<close> in the device's outer-join map.
\<close>

datatype mr_op =
    OpAttach
  | OpDetach bool
  | OpGet nat nat nat
  | OpSend nat nat nat
  | OpPut nat
  | OpMark nat "nat set"

type_synonym mr_state = "GpuJoinState \<times> pgstrom_multirels \<times> gpu"

fun mr_step :: "platform \<Rightarrow> mr_state \<Rightarrow> mr_op \<Rightarrow> error + mr_state" where
  "mr_step P (gjs, pm, g) OpAttach = Inr (gjs, multirels_attach_buffer pm, g)"
| "mr_step P (gjs, pm, g) (OpDetach may_kick) = multirels_detach_buffer P gjs pm g may_kick"
| "mr_step P (gjs, pm, g) (OpGet d a_kmrels a_ojmaps) =
     Inr (gjs, snd (multirels_get_buffer pm g d a_kmrels a_ojmaps))"
| "mr_step P (gjs, pm, g) (OpSend d stream ev) =
     Inr (gjs, multirels_send_buffer pm g d stream ev)"
| "mr_step P (gjs, pm, g) (OpPut d) = Inr (gjs, multirels_put_buffer pm g d)"
| "mr_step P (gjs, pm, g) (OpMark d rows) =
     Inr (gjs, pm, g\<lparr>gpu_ojmap := (gpu_ojmap g)(d := gpu_ojmap g d \<union> rows)\<rparr>)"

text \<open>
  What the code relies on when it makes a call (its assertions, and the order of the
  calls of one task): the buffer is not released and is attached; a task sends, marks
  and puts only while it holds the buffer on its device; the buffer is released only
  when no device holds it; the driver's handles are not NULL.
\<close>

fun mr_valid :: "mr_state \<Rightarrow> mr_op \<Rightarrow> bool" where
  "mr_valid (gjs, pm, g) OpAttach = (\<not> released pm \<and> n_attached pm > 0)"
| "mr_valid (gjs, pm, g) (OpDetach may_kick) =
     (\<not> released pm \<and> n_attached pm > 0 \<and>
      (n_attached pm = 1 \<and> \<not> (may_kick \<and> \<not> outer_join_kicked pm)
         \<longrightarrow> list_all (\<lambda>d. refcnt pm d = 0) [0 ..< num_context gjs]))"
| "mr_valid (gjs, pm, g) (OpGet d a_kmrels a_ojmaps) =
     (\<not> released pm \<and> n_attached pm > 0 \<and> d < num_context gjs)"
| "mr_valid (gjs, pm, g) (OpSend d stream ev) =
     (\<not> released pm \<and> refcnt pm d > 0 \<and> ev \<noteq> 0)"
| "mr_valid (gjs, pm, g) (OpPut d) =
     (\<not> released pm \<and> n_attached pm > 0 \<and> refcnt pm d > 0)"
| "mr_valid (gjs, pm, g) (OpMark d rows) =
     (\<not> released pm \<and> refcnt pm d > 0 \<and> m_ojmaps pm d \<noteq> 0)"

fun mr_run :: "platform \<Rightarrow> mr_state \<Rightarrow> mr_op list \<Rightarrow> error + mr_state" where
  "mr_run P st [] = Inr st"
| "mr_run P st (op # ops) =
     (case mr_step P st op of
        Inl e \<Rightarrow> Inl e
      | Inr st' \<Rightarrow> mr_run P st' ops)"

fun mr_valid_run :: "platform \<Rightarrow> mr_state \<Rightarrow> mr_op list \<Rightarrow> bool" where
  "mr_valid_run P st [] = True"
| "mr_valid_run P st (op # ops) =
     (mr_valid st op \<and>
      (case mr_step P st op of
         Inl e \<Rightarrow> True
       | Inr st' \<Rightarrow> mr_valid_run P st' ops))"

text \<open>
  A buffer as \<^verbatim>\<open>gpujoin_inner_preload\<close> returns it: attached once, on no device,
  and nothing issued yet.
\<close>

definition fresh_buffer :: "pgstrom_multirels \<Rightarrow> bool" where
  "fresh_buffer pm =
     (n_attached pm = 1 \<and> \<not> released pm \<and> \<not> outer_join_kicked pm \<and>
      refcnt pm = (\<lambda>_. 0) \<and> m_kmrels pm = (\<lambda>_. 0) \<and>
      ev_loaded pm = (\<lambda>_. 0) \<and> m_ojmaps pm = (\<lambda>_. 0))"

definition gpu_init :: gpu where
  "gpu_init = \<lparr> gpu_log = [], gpu_ojmap = (\<lambda>_. {}) \<rparr>"

text \<open>Counts over the log, for a device \<open>d\<close>.\<close>

definition mirror_allocs :: "gpu \<Rightarrow> nat \<Rightarrow> nat" where
  "mirror_allocs g d = count_list (gpu_log g) (AllocMirror d)"

definition mirror_frees :: "gpu \<Rightarrow> nat \<Rightarrow> nat" where
  "mirror_frees g d = count_list (gpu_log g) (FreeMirror d)"

fun is_upload :: "nat \<Rightarrow> gpu_call \<Rightarrow> bool" where
  "is_upload d (UploadMirror d' s) = (d' = d)"
| "is_upload d _ = False"

definition mirror_uploads :: "gpu \<Rightarrow> nat \<Rightarrow> nat" where
  "mirror_uploads g d = length (filter (is_upload d) (gpu_log g))"

text \<open>The outer-join tasks (tasks without an outer chunk) in the pending queue.\<close>

definition pending_sweeps :: "GpuJoinState \<Rightarrow> pgstrom_gpujoin list" where
  "pending_sweeps gjs = filter (\<lambda>t. pds_src t = None) (pending_tasks gjs)"

text \<open>The rows that the probe kernels of a sequence of calls mark on device \<open>d\<close>.\<close>

fun marked_rows :: "mr_op list \<Rightarrow> nat \<Rightarrow> nat set" where
  "marked_rows [] d = {}"
| "marked_rows (OpMark d' rows # ops) d = (if d' = d then rows else {}) \<union> marked_rows ops d"
| "marked_rows (_ # ops) d = marked_rows ops d"

section \<open>Notions used in the statements\<close>

text \<open>
  The greedy accumulation of histogram buckets in words: \<open>greedy_sizes limit c sizes\<close>
  lists, for each bucket, the size accumulated when the bucket is reached, starting
  from \<open>c\<close>; a bucket that does not fit any more starts the next accumulation.
\<close>

fun greedy_sizes :: "nat \<Rightarrow> nat \<Rightarrow> nat list \<Rightarrow> nat list" where
  "greedy_sizes limit c [] = []"
| "greedy_sizes limit c (s # ss) =
     c # greedy_sizes limit (if c + s > limit then s else c + s) ss"

text \<open>
  The accumulation reaches the budget at some bucket while the accumulated size is
  still zero: that bucket alone exceeds the budget.
\<close>

definition skew_too_extreme :: "nat \<Rightarrow> nat list \<Rightarrow> bool" where
  "skew_too_extreme limit sizes =
     list_ex (\<lambda>(c, s). c = 0 \<and> s > limit) (zip (greedy_sizes limit 0 sizes) sizes)"





text \<open>The parts of the result of a sequence of calls.\<close>

definition final_gpu :: "error + mr_state \<Rightarrow> gpu" where
  "final_gpu r = (case r of Inr (_, _, g) \<Rightarrow> g | Inl _ \<Rightarrow> gpu_init)"

definition final_buffer :: "error + mr_state \<Rightarrow> pgstrom_multirels option" where
  "final_buffer r = (case r of Inr (_, pm, _) \<Rightarrow> Some pm | Inl _ \<Rightarrow> None)"

definition final_gjs :: "error + mr_state \<Rightarrow> GpuJoinState option" where
  "final_gjs r = (case r of Inr (gjs, _, _) \<Rightarrow> Some gjs | Inl _ \<Rightarrow> None)"


definition marks_inv :: "nat \<Rightarrow> nat set \<Rightarrow> mr_state \<Rightarrow> bool" where
  "marks_inv d M st =
     (case st of (gjs, pm, g) \<Rightarrow> (m_ojmaps pm d = 0 \<longrightarrow> M = {}) \<and> M \<subseteq> gpu_ojmap g d)"

definition sweep_inv :: "nat \<Rightarrow> mr_state \<Rightarrow> bool" where
  "sweep_inv k st =
     (case st of (gjs, pm, g) \<Rightarrow>
        length (pending_sweeps gjs) = k + (if outer_join_kicked pm then 1 else 0))"

definition free_inv :: "nat \<Rightarrow> mr_state \<Rightarrow> bool" where
  "free_inv d st =
     (case st of (gjs, pm, g) \<Rightarrow>
        FreeOjmap d \<in> set (gpu_log g) \<longrightarrow> released pm \<and> n_attached pm = 0)"

section \<open>Example inputs\<close>

text \<open>Two depths of two chunks each, named by their lengths, after the first window.\<close>

definition chunk_of :: "nat \<Rightarrow> pgstrom_data_store" where
  "chunk_of n = \<lparr> kds_length = n, kds_usage = 0, kds_nitems = 0, kds_nrooms = 0,
                  kds_nslots = 0, kds_hash_min = 0, kds_hash_max = 0, kds_rows = [] \<rparr>"

definition depth_of :: "JoinType \<Rightarrow> pgstrom_data_store list \<Rightarrow> int \<Rightarrow> innerState" where
  "depth_of jt chunks idx =
     \<lparr> pds_list = chunks, pds_index = idx, pds_limit = 0, consumed = 0, ntuples = 0,
       tupstore = None, join_type = jt, nrows_ratio = 1, ichunk_size = 0,
       hash_join = False, hash_nslots = 0, hgram_shift = 0, hgram_width = 0,
       hgram_size = [], hgram_nitems = [] \<rparr>"

definition two_by_two :: "innerState list" where
  "two_by_two =
     [ depth_of JOIN_INNER [chunk_of 10, chunk_of 11] 1,
       depth_of JOIN_INNER [chunk_of 20, chunk_of 21] 1 ]"

text \<open>The state of the two depths after the first call.\<close>

definition stuck_state :: "innerState list" where
  "stuck_state =
     [ depth_of JOIN_INNER [chunk_of 10, chunk_of 11] 1,
       depth_of JOIN_INNER [chunk_of 20, chunk_of 21] 2 ]"

text \<open>
  A platform for the examples: 16-byte alignment, a chunk size of 64 kB with a limit
  of 256 kB and a margin of 5/4, and data stores that keep their rows in a list and
  take a row while \<^verbatim>\<open>usage\<close> stays within \<^verbatim>\<open>length\<close>.
\<close>

definition example_store :: "nat \<Rightarrow> nat \<Rightarrow> nat \<Rightarrow> pgstrom_data_store" where
  "example_store len nrooms nslots =
     \<lparr> kds_length = len, kds_usage = 0, kds_nitems = 0, kds_nrooms = nrooms,
       kds_nslots = nslots, kds_hash_min = 0, kds_hash_max = - 1, kds_rows = [] \<rparr>"

definition example_insert :: "pgstrom_data_store \<Rightarrow> tuple \<Rightarrow> pgstrom_data_store option" where
  "example_insert pds t =
     (if kds_usage pds + (4 + MAXALIGN (16 + snd t)) \<le> kds_length pds
      then Some (pds\<lparr> kds_usage := kds_usage pds + (4 + MAXALIGN (16 + snd t)),
                      kds_nitems := kds_nitems pds + 1,
                      kds_rows := kds_rows pds @ [t] \<rparr>)
      else None)"

definition example_platform :: platform where
  "example_platform =
     \<lparr> stromalign_len = 16,
       multirels_head = (\<lambda>n. 1040 + 24 * n),
       gpujoin_kparams_off = 64,
       resultbuf_head = 32,
       kds_colmeta_off = (\<lambda>n. 64 + 16 * n),
       kds_head_length = (\<lambda>n. 64 + 16 * n),
       tupitem_htup_off = 8,
       hashitem_htup_off = 16,
       BLCKSZ = 8192,
       pgstrom_chunk_size = 65536,
       pgstrom_chunk_size_limit = 262144,
       pgstrom_chunk_size_margin = 5 / 4,
       create_data_store_hash = (\<lambda>len nslots. example_store len 0 nslots),
       create_data_store_row = (\<lambda>len. example_store len 0 0),
       create_data_store_slot = (\<lambda>nrooms. example_store 0 nrooms 0),
       data_store_insert_hashitem = example_insert,
       expand_data_store = (\<lambda>pds len nslots. pds\<lparr>kds_length := len, kds_nslots := nslots\<rparr>),
       shrink_data_store = (\<lambda>pds. pds) \<rparr>"

text \<open>
  A hash-join depth of join type \<open>jt\<close> with a histogram of 16 buckets
  (\<^verbatim>\<open>hgram_shift\<close> is 28), one chunk \<open>pds\<close>, the budget \<open>limit\<close> and \<open>used\<close>
  bytes consumed.
\<close>

definition hash_depth ::
  "JoinType \<Rightarrow> pgstrom_data_store \<Rightarrow> nat \<Rightarrow> nat \<Rightarrow> nat list \<Rightarrow> innerState" where
  "hash_depth jt pds limit used sizes =
     \<lparr> pds_list = [pds], pds_index = 0, pds_limit = limit, consumed = used, ntuples = 0,
       tupstore = None, join_type = jt, nrows_ratio = 1, ichunk_size = 0,
       hash_join = True, hash_nslots = 16, hgram_shift = 28, hgram_width = 16,
       hgram_size = sizes,
       hgram_nitems = [1, 1, 1, 1, 1, 1, 1, 1, 1, 1, 1, 1, 1, 1, 1, 1] \<rparr>"

text \<open>
  A chunk with two rows; a histogram of equal buckets; depths whose budget of 200 bytes
  is reached by the next row; a spilled depth at the end of its scan; a depth whose
  first non-empty bucket exceeds the budget; and a histogram whose last bucket does
  not fit into the chunk being accumulated.
\<close>

definition two_rows :: pgstrom_data_store where
  "two_rows = (example_store 1000 0 16)
                \<lparr> kds_usage := 184, kds_nitems := 2, kds_rows := [(1, 40), (2, 40)] \<rparr>"






definition skewed_depth :: innerState where
  "skewed_depth = (hash_depth JOIN_LEFT two_rows 100 100
                     [0, 0, 500, 10, 10, 10, 10, 10, 10, 10, 10, 10, 10, 10, 10, 10])
                     \<lparr> pds_list := [], tupstore := Some [(0x20000000, 480)] \<rparr>"

definition uneven_depth :: innerState where
  "uneven_depth = (hash_depth JOIN_LEFT two_rows 100 240
                     [60, 180, 0, 0, 0, 0, 0, 0, 0, 0, 0, 0, 0, 0, 0, 0])
                     \<lparr> pds_list := [],
                       tupstore := Some [(0x01000000, 40), (0x11000000, 40), (0x12000000, 40),
                                         (0x13000000, 40)],
                       hgram_nitems := [1, 3, 0, 0, 0, 0, 0, 0, 0, 0, 0, 0, 0, 0, 0, 0] \<rparr>"

definition wrapped_depth :: innerState where
  "wrapped_depth = (hash_depth JOIN_LEFT two_rows 45 0
                      [10, 10, 10, 10, 10, 10, 10, 10, 10, 10, 10, 10, 10, 10, 10, 20])
                     \<lparr> pds_list := [], tupstore := Some [(1, 40)] \<rparr>"

text \<open>
  A join of one inner depth on two devices, with an inner join and with a right outer
  join whose chunk holds 100 rows; the buffers of their first windows; and sequences of
  calls on them.
\<close>

definition inner_gjs :: GpuJoinState where
  "inner_gjs =
     \<lparr> num_rels = 1, inners = [depth_of JOIN_INNER [chunk_of 4096] 1],
       source_nitems = 0, outer_nitems = (\<lambda>_. 0), gjs_kresults_ratio = 2,
       result_format = KDS_FORMAT_SLOT, result_width = 64, outer_join_start_depth = 1,
       outer_plan_nrows = 1000, kern_params_length = 100, gjs_ncols = 2,
       pending_tasks = [], num_pending_tasks = 0, num_context = 2 \<rparr>"

definition inner_buffer :: pgstrom_multirels where
  "inner_buffer = projr (gpujoin_make_window example_platform 2 (inners inner_gjs))"

definition right_gjs :: GpuJoinState where
  "right_gjs =
     \<lparr> num_rels = 1,
       inners = [depth_of JOIN_RIGHT [(chunk_of 4096)\<lparr>kds_nitems := 100\<rparr>] 1],
       source_nitems = 0, outer_nitems = (\<lambda>_. 0), gjs_kresults_ratio = 2,
       result_format = KDS_FORMAT_SLOT, result_width = 64, outer_join_start_depth = 1,
       outer_plan_nrows = 1000, kern_params_length = 100, gjs_ncols = 2,
       pending_tasks = [], num_pending_tasks = 0, num_context = 2 \<rparr>"

definition right_buffer :: pgstrom_multirels where
  "right_buffer = projr (gpujoin_make_window example_platform 2 (inners right_gjs))"

definition new_sweep :: pgstrom_gpujoin where
  "new_sweep = \<lparr> task_kerror = StromError_Success, cuda_index = 0, cuda_stream = 0,
                     m_kgjoin = 0, task_m_kmrels = 0, task_m_ojmaps = 0,
                     oitems_base = 0, oitems_nums = 4025479151,
                     pds_src = None, pds_dst = None, kern = empty_kern \<rparr>"


definition probe_ops :: "mr_op list" where
  "probe_ops = [OpGet 0 4096 512, OpMark 0 {3}, OpPut 0, OpGet 0 8192 0, OpMark 0 {5}, OpPut 0]"

definition twice_detached :: "mr_op list" where
  "twice_detached = [OpDetach True, OpDetach True]"

definition in_flight_ops :: "mr_op list" where
  "in_flight_ops = [OpAttach, OpGet 0 4096 512, OpSend 0 1 7, OpMark 0 {3},
                    OpDetach True, OpPut 0, OpDetach False]"

definition held_buffer :: pgstrom_multirels where
  "held_buffer = right_buffer\<lparr> m_ojmaps := (\<lambda>_. 0)(0 := 512) \<rparr>"

definition marked_gpu :: gpu where
  "marked_gpu = \<lparr> gpu_log = [AllocMirror 0, AllocOjmap 0, ZeroOjmap 0, FreeMirror 0],
                  gpu_ojmap = (\<lambda>_. {})(0 := {3}) \<rparr>"

text \<open>
  A task of the inner join that ran out of space: 100 outer rows admitted, 400 items
  reached in a result buffer of 250, and 300 result rows; the same task with a single
  outer row that reached 100000 items; and the buffer while the task holds its mirror
  on device 0.
\<close>

definition retry_dst :: pgstrom_data_store where
  "retry_dst = (example_store 16368 678 0)\<lparr> kds_usage := 7296, kds_nitems := 300 \<rparr>"

definition retry_src :: pgstrom_data_store where
  "retry_src = (chunk_of 65536)\<lparr> kds_nitems := 100 \<rparr>"

definition retry_task :: pgstrom_gpujoin where
  "retry_task =
     \<lparr> task_kerror = StromError_DataStoreNoSpace, cuda_index = 0, cuda_stream = 1,
       m_kgjoin = 4096, task_m_kmrels = 8192, task_m_ojmaps = 0,
       oitems_base = 0, oitems_nums = 100,
       pds_src = Some retry_src, pds_dst = Some retry_dst,
       kern = empty_kern\<lparr> kresults_total_items := 250, kresults_max_items := 400,
                           kern_num_rels := 1, kern_start_depth := 1,
                           kern_kerror := StromError_DataStoreNoSpace,
                           kresults_in_nrels := 1, kresults_in_nrooms := 250,
                           kresults_in_nitems := 100 \<rparr> \<rparr>"

definition overflowing_task :: pgstrom_gpujoin where
  "overflowing_task =
     retry_task\<lparr> oitems_nums := 1, pds_src := Some (retry_src\<lparr> kds_nitems := 1 \<rparr>),
                 kern := (kern retry_task)\<lparr> kresults_max_items := 100000 \<rparr> \<rparr>"

definition loaded_buffer :: pgstrom_multirels where
  "loaded_buffer = inner_buffer\<lparr> n_attached := 2, refcnt := (\<lambda>_. 0)(0 := 1),
                                 m_kmrels := (\<lambda>_. 0)(0 := 8192), ev_loaded := (\<lambda>_. 0)(0 := 7) \<rparr>"

section \<open>Double-precision arithmetic: results\<close>

text \<open>The rounding is monotone, and odd.\<close>

lemma pow2_powr: "pow2 e = 2 powr (of_int e)"
proof (cases "0 \<le> e")
  case True
  then have "real_of_int e = real (nat e)" by simp
  then have "2 powr (of_int e) = (2::real) ^ nat e"
    by (simp only: powr_realpow zero_less_numeral)
  then show ?thesis using True by (simp add: pow2_def)
next
  case False
  then have "real_of_int e = - real (nat (- e))" by simp
  then have "2 powr (of_int e) = 1 / (2::real) powr real (nat (- e))"
    by (simp only: powr_minus_divide)
  also have "\<dots> = 1 / (2::real) ^ nat (- e)"
    by (simp only: powr_realpow zero_less_numeral)
  finally show ?thesis using False by (simp add: pow2_def)
qed

lemma pow2_pos: "0 < pow2 e"
  by (simp add: pow2_powr)

lemma pow2_add: "pow2 (a + b) = pow2 a * pow2 b"
  by (simp add: pow2_powr powr_add)

lemma pow2_mono: "a \<le> b \<Longrightarrow> pow2 a \<le> pow2 b"
  by (simp add: pow2_powr)

lemma pow2_nat: "pow2 (int n) = 2 ^ n"
  by (simp add: pow2_def)

lemma bitlen_pos: "0 < n \<Longrightarrow> 0 < bitlen n"
proof (rule ccontr)
  assume n: "0 < n" and "\<not> 0 < bitlen n"
  then have "nat (bitlen n) = 0" by simp
  then show False using bitlen_bounds [OF n] n by simp
qed

lemma pow2_pred: "0 < b \<Longrightarrow> pow2 (- b + 1) = 1 / 2 ^ nat (b - 1)"
  by (cases "b = 1") (simp_all add: pow2_def)

lemma int_pow2_le_real: "(2::int) ^ k \<le> n \<Longrightarrow> (2::real) ^ k \<le> real_of_int n"
proof -
  assume "(2::int) ^ k \<le> n"
  then have "real_of_int (2 ^ k) \<le> real_of_int n" by (simp only: of_int_le_iff)
  then show ?thesis by simp
qed

lemma int_less_pow2_real: "n < (2::int) ^ k \<Longrightarrow> real_of_int n + 1 \<le> (2::real) ^ k"
proof -
  assume "n < (2::int) ^ k"
  then have "n + 1 \<le> 2 ^ k" by simp
  then have "real_of_int (n + 1) \<le> real_of_int (2 ^ k)" by (simp only: of_int_le_iff)
  then show ?thesis by simp
qed

lemma double_exponent_bounds:
  assumes "x \<noteq> 0"
  shows "pow2 (double_exponent x) \<le> \<bar>x\<bar>" and "\<bar>x\<bar> < pow2 (double_exponent x + 1)"
proof -
  have "pow2 (double_exponent x) \<le> \<bar>x\<bar> \<and> \<bar>x\<bar> < pow2 (double_exponent x + 1)"
  proof (cases "1 \<le> \<bar>x\<bar>")
    case True
    define n where "n = \<lfloor>\<bar>x\<bar>\<rfloor>"
    have n: "0 < n" using True by (simp add: n_def)
    have p: "0 < bitlen n" using n by (rule bitlen_pos)
    have e: "double_exponent x = bitlen n - 1" using True by (simp add: double_exponent_def n_def)
    have nx: "real_of_int n \<le> \<bar>x\<bar>" "\<bar>x\<bar> < real_of_int n + 1" by (simp_all add: n_def)
    have "(2::real) ^ nat (bitlen n - 1) \<le> real_of_int n"
      using bitlen_bounds [OF n] by (intro int_pow2_le_real) simp
    moreover have "pow2 (bitlen n - 1) = 2 ^ nat (bitlen n - 1)" using p by (simp add: pow2_def)
    ultimately have l: "pow2 (bitlen n - 1) \<le> \<bar>x\<bar>" using nx(1) by linarith
    have "real_of_int n + 1 \<le> (2::real) ^ nat (bitlen n)"
      using bitlen_bounds [OF n] by (intro int_less_pow2_real) simp
    moreover have "pow2 (bitlen n) = 2 ^ nat (bitlen n)" using p by (simp add: pow2_def)
    ultimately have "\<bar>x\<bar> < pow2 (bitlen n)" using nx(2) by linarith
    then show ?thesis using l by (simp add: e)
  next
    case False
    define y where "y = 1 / \<bar>x\<bar>"
    define m where "m = \<lceil>y\<rceil> - 1"
    have y1: "1 < y" using False assms by (simp add: y_def)
    have m: "0 < m" using y1 by (simp add: m_def)
    have my: "real_of_int m < y" "y \<le> real_of_int m + 1"
      unfolding m_def by linarith+
    have p: "0 < bitlen m" using m by (rule bitlen_pos)
    have e: "double_exponent x = - bitlen m" using False by (simp add: double_exponent_def m_def y_def)
    have "(2::real) ^ nat (bitlen m - 1) \<le> real_of_int m"
      using bitlen_bounds [OF m] by (intro int_pow2_le_real) simp
    then have lo: "2 ^ nat (bitlen m - 1) < y" using my(1) by linarith
    have "real_of_int m + 1 \<le> (2::real) ^ nat (bitlen m)"
      using bitlen_bounds [OF m] by (intro int_less_pow2_real) simp
    then have hi: "y \<le> 2 ^ nat (bitlen m)" using my(2) by linarith
    have x: "\<bar>x\<bar> = 1 / y" "0 < y" using assms by (simp_all add: y_def)
    have "1 / 2 ^ nat (bitlen m) \<le> 1 / y" using hi x(2) by (simp add: frac_le)
    then have l: "pow2 (- bitlen m) \<le> \<bar>x\<bar>" using p by (simp add: pow2_def x(1))
    have "1 / y < 1 / 2 ^ nat (bitlen m - 1)" using lo by (simp add: frac_less2)
    moreover have "pow2 (- bitlen m + 1) = 1 / 2 ^ nat (bitlen m - 1)"
      using p by (rule pow2_pred)
    ultimately have "\<bar>x\<bar> < pow2 (- bitlen m + 1)" by (simp add: x(1))
    then show ?thesis using l by (simp add: e)
  qed
  then show "pow2 (double_exponent x) \<le> \<bar>x\<bar>" and "\<bar>x\<bar> < pow2 (double_exponent x + 1)"
    by simp_all
qed


lemma round_ties_even_of_int: "round_ties_even (of_int m) = m"
  by (simp add: round_ties_even_def)

lemma round_ties_even_range:
  "\<lfloor>x\<rfloor> \<le> round_ties_even x" "round_ties_even x \<le> \<lfloor>x\<rfloor> + 1"
  by (simp_all add: round_ties_even_def Let_def)

lemma round_ties_even_mono:
  assumes "x \<le> y"
  shows "round_ties_even x \<le> round_ties_even y"
proof (cases "\<lfloor>x\<rfloor> = \<lfloor>y\<rfloor>")
  case True
  have "x - of_int \<lfloor>x\<rfloor> \<le> y - of_int \<lfloor>y\<rfloor>" using assms True by simp
  then show ?thesis
    using True by (auto simp add: round_ties_even_def Let_def)
next
  case False
  then have "\<lfloor>x\<rfloor> + 1 \<le> \<lfloor>y\<rfloor>" using floor_mono [OF assms] by simp
  then show ?thesis
    using round_ties_even_range(2) [of x] round_ties_even_range(1) [of y] by linarith
qed

lemma pow2_shift:
  "pow2 E = 2 ^ 52 * pow2 (E - 52)" "pow2 (E + 1) = 2 ^ 53 * pow2 (E - 52)"
proof -
  have a: "pow2 52 = 2 ^ 52" "pow2 53 = 2 ^ 53" by (simp_all add: pow2_def)
  have "pow2 (52 + (E - 52)) = pow2 52 * pow2 (E - 52)" by (rule pow2_add)
  then show "pow2 E = 2 ^ 52 * pow2 (E - 52)" by (simp only: a) simp
  have "pow2 (53 + (E - 52)) = pow2 53 * pow2 (E - 52)" by (rule pow2_add)
  moreover have "53 + (E - 52) = E + 1" by simp
  ultimately show "pow2 (E + 1) = 2 ^ 53 * pow2 (E - 52)" by (simp only: a)
qed

lemma double_round_scaled:
  assumes "0 < x"
  shows "2 ^ 52 \<le> x / pow2 (double_exponent x - 52)"
    and "x / pow2 (double_exponent x - 52) < 2 ^ 53"
proof -
  define E where "E = double_exponent x"
  have b: "pow2 E \<le> x" "x < pow2 (E + 1)"
    using double_exponent_bounds [of x] assms by (simp_all add: E_def)
  have p: "pow2 E = 2 ^ 52 * pow2 (E - 52)" "pow2 (E + 1) = 2 ^ 53 * pow2 (E - 52)"
    by (rule pow2_shift)+
  show "2 ^ 52 \<le> x / pow2 (double_exponent x - 52)"
    using b(1) p(1) pow2_pos [of "E - 52"] by (simp add: E_def [symmetric] pos_le_divide_eq)
  show "x / pow2 (double_exponent x - 52) < 2 ^ 53"
    using b(2) p(2) pow2_pos [of "E - 52"] by (simp add: E_def [symmetric] pos_divide_less_eq)
qed

lemma double_round_range:
  assumes "0 < x"
  shows "pow2 (double_exponent x) \<le> double_round x"
    and "double_round x \<le> pow2 (double_exponent x + 1)"
proof -
  define E where "E = double_exponent x"
  define z where "z = x / pow2 (E - 52)"
  have z: "of_int (2 ^ 52) \<le> z" "z \<le> of_int (2 ^ 53)"
    using double_round_scaled [OF assms] by (simp_all add: z_def E_def)
  have r: "2 ^ 52 \<le> round_ties_even z" "round_ties_even z \<le> 2 ^ 53"
    using round_ties_even_mono [OF z(1)] round_ties_even_mono [OF z(2)]
    by (simp_all only: round_ties_even_of_int)
  have f: "double_round x = of_int (round_ties_even z) * pow2 (E - 52)"
    using assms by (simp add: double_round_def z_def E_def Let_def)
  have p: "pow2 E = 2 ^ 52 * pow2 (E - 52)" "pow2 (E + 1) = 2 ^ 53 * pow2 (E - 52)"
    by (rule pow2_shift)+
  have "(2::real) ^ 52 \<le> of_int (round_ties_even z)" using r(1) by (intro int_pow2_le_real)
  then show "pow2 (double_exponent x) \<le> double_round x"
    unfolding E_def [symmetric] f p using pow2_pos [of "E - 52"] by (intro mult_right_mono) simp_all
  have "real_of_int (round_ties_even z) \<le> real_of_int (2 ^ 53)" using r(2) by (simp only: of_int_le_iff)
  then have "real_of_int (round_ties_even z) \<le> 2 ^ 53" by simp
  then show "double_round x \<le> pow2 (double_exponent x + 1)"
    unfolding E_def [symmetric] f p using pow2_pos [of "E - 52"] by (intro mult_right_mono) simp_all
qed

lemma double_round_zero: "double_round 0 = 0"
  by (simp add: double_round_def)

lemma double_round_pos: "0 < x \<Longrightarrow> 0 < double_round x"
  using double_round_range(1) [of x] pow2_pos [of "double_exponent x"] by linarith

lemma double_round_nonneg: "0 \<le> x \<Longrightarrow> 0 \<le> double_round x"
  using double_round_pos [of x] double_round_zero by (cases "x = 0") auto

lemma double_round_mono:
  assumes "0 \<le> x" and "x \<le> y"
  shows "double_round x \<le> double_round y"
proof (cases "x = 0")
  case True
  then show ?thesis using double_round_nonneg [of y] assms by (simp add: double_round_zero)
next
  case False
  then have x: "0 < x" and y: "0 < y" using assms by simp_all
  define Ex where "Ex = double_exponent x"
  define Ey where "Ey = double_exponent y"
  have bx: "pow2 Ex \<le> x" "x < pow2 (Ex + 1)"
    using double_exponent_bounds [of x] x by (simp_all add: Ex_def)
  have by': "pow2 Ey \<le> y" "y < pow2 (Ey + 1)"
    using double_exponent_bounds [of y] y by (simp_all add: Ey_def)
  have le: "Ex \<le> Ey"
  proof (rule ccontr)
    assume "\<not> Ex \<le> Ey"
    then have "Ey + 1 \<le> Ex" by simp
    then have "pow2 (Ey + 1) \<le> pow2 Ex" by (rule pow2_mono)
    then show False using bx(1) by'(2) assms(2) by linarith
  qed
  show ?thesis
  proof (cases "Ex = Ey")
    case True
    have "x / pow2 (Ex - 52) \<le> y / pow2 (Ex - 52)"
      using assms(2) pow2_pos [of "Ex - 52"] by (simp add: divide_right_mono)
    then have "round_ties_even (x / pow2 (Ex - 52)) \<le> round_ties_even (y / pow2 (Ex - 52))"
      by (rule round_ties_even_mono)
    then have "real_of_int (round_ties_even (x / pow2 (Ex - 52))) * pow2 (Ex - 52)
               \<le> real_of_int (round_ties_even (y / pow2 (Ex - 52))) * pow2 (Ex - 52)"
      using pow2_pos [of "Ex - 52"] by (intro mult_right_mono) simp_all
    then show ?thesis
      using x y True by (simp add: double_round_def Ex_def Ey_def Let_def)
  next
    case False
    then have "Ex + 1 \<le> Ey" using le by simp
    then have "pow2 (Ex + 1) \<le> pow2 Ey" by (rule pow2_mono)
    then show ?thesis
      using double_round_range(2) [OF x] double_round_range(1) [OF y]
      by (simp add: Ex_def Ey_def)
  qed
qed

lemma round_ties_even_minus: "round_ties_even (- x) = - round_ties_even x"
proof (cases "x = of_int \<lfloor>x\<rfloor>")
  case True
  then obtain m where "x = of_int m" by blast
  then have "round_ties_even x = m" "round_ties_even (- x) = - m"
    using round_ties_even_of_int [of m] round_ties_even_of_int [of "- m"] by simp_all
  then show ?thesis by simp
next
  case False
  define f where "f = \<lfloor>x\<rfloor>"
  define d where "d = x - of_int f"
  have d: "0 < d" "d < 1" using False by (simp_all add: d_def f_def) linarith+
  have fl: "\<lfloor>- x\<rfloor> = - f - 1"
    using d by (intro floor_unique) (simp_all add: d_def)
  have dm: "- x - of_int (- f - 1) = 1 - d" by (simp add: d_def)
  have ev: "even (- f - 1) \<longleftrightarrow> odd f" by simp
  have p: "round_ties_even x
           = (if d < 1 / 2 then f else if 1 / 2 < d then f + 1 else if even f then f else f + 1)"
    by (simp only: round_ties_even_def Let_def f_def [symmetric] d_def [symmetric])
  have "round_ties_even (- x)
           = (if - x - of_int (- f - 1) < 1 / 2 then - f - 1
              else if 1 / 2 < - x - of_int (- f - 1) then - f - 1 + 1
              else if even (- f - 1) then - f - 1 else - f - 1 + 1)"
    by (simp only: round_ties_even_def Let_def fl)
  then have n: "round_ties_even (- x)
           = (if 1 - d < 1 / 2 then - f - 1 else if 1 / 2 < 1 - d then - f
              else if odd f then - f - 1 else - f)"
    by (simp only: dm ev) simp
  consider "d < 1 / 2" | "d = 1 / 2" | "1 / 2 < d" by linarith
  then show ?thesis
  proof cases
    case 1
    then show ?thesis by (simp add: p n)
  next
    case 2
    then show ?thesis by (simp add: p n)
  next
    case 3
    then show ?thesis by (simp add: p n)
  qed
qed

lemma double_exponent_minus: "double_exponent (- x) = double_exponent x"
  by (simp add: double_exponent_def)

lemma double_round_minus: "double_round (- x) = - double_round x"
  by (simp add: double_round_def double_exponent_minus round_ties_even_minus Let_def)

lemma double_round_mono_all:
  assumes "x \<le> y"
  shows "double_round x \<le> double_round y"
proof (cases "0 \<le> x")
  case True
  then show ?thesis using assms by (rule double_round_mono)
next
  case False
  show ?thesis
  proof (cases "0 \<le> y")
    case True
    have "0 \<le> double_round (- x)" using False by (intro double_round_nonneg) simp
    then have "double_round x \<le> 0" by (simp add: double_round_minus)
    then show ?thesis using double_round_nonneg [OF True] by linarith
  next
    case n: False
    have "double_round (- y) \<le> double_round (- x)"
      using n assms by (intro double_round_mono) simp_all
    then show ?thesis by (simp add: double_round_minus)
  qed
qed

lemma dmul_mono_left:
  assumes "a \<le> b" and "0 \<le> c"
  shows "dmul a c \<le> dmul b c"
  unfolding dmul_def
  using assms
  by (intro double_round_mono_all mult_right_mono double_round_nonneg) simp_all

lemma dmul_mono_right:
  assumes "a \<le> b" and "0 \<le> c"
  shows "dmul c a \<le> dmul c b"
  unfolding dmul_def
  using assms
  by (intro double_round_mono_all mult_left_mono double_round_nonneg) simp_all

lemma double_to_size_mono: "x \<le> y \<Longrightarrow> double_to_size x \<le> double_to_size y"
  by (simp add: double_to_size_def floor_mono nat_mono)

text \<open>Values of the arithmetic that the examples meet.\<close>

lemma double_examples:
  "dmul 2 (5 / 4) = 5 / 2"
  "dadd 0 (dmul (dmul (dsub 1 0) (5 / 4)) 100) = 125"
  "dmul 2 125 = 250"
  "max 0 (ddiv 250 4025479151) = ddiv 250 4025479151"
  "ddiv 125 100 = 5 / 4"
  "double_to_size (dmul (dmul (ddiv 250 4025479151) 100) (5 / 4)) = 0"
  "double_to_size (dmul (dmul 100 (5 / 4)) (5 / 4)) = 156"
  "double_to_size (dmul 0 (5 / 4)) = 0"
  "double_to_size (dmul 1 (5 / 4)) = 1"
  "double_to_size (dmul 3 (5 / 4)) = 3"
  by code_simp+

section \<open>Inner-relation loader: results\<close>

subsection \<open>The fatal error of the partitioning loop\<close>

lemma hgram_partition_error_iff:
  "(hgram_partition P ncols limit shift i bs st = Inl e) \<longleftrightarrow>
     (e = ERR_TooExtremeHashKeyDistribution \<and>
      list_ex (\<lambda>(c, s). c = 0 \<and> s > limit)
        (zip (greedy_sizes limit (ts_curr_size st) (map fst bs)) (map fst bs)))"
proof (induction bs arbitrary: st i)
  case Nil
  show ?case by simp
next
  case (Cons b bs)
  obtain s n where b: "b = (s, n)" by (cases b)
  show ?case
    unfolding b by (auto simp add: Cons.IH)
qed

lemma ts_boundaries_error_iff:
  "(ts_boundaries P ncols istate = Inl e) \<longleftrightarrow>
     (e = ERR_TooExtremeHashKeyDistribution \<and>
      skew_too_extreme (pds_limit istate) (map fst (hgram_buckets istate)))"
  using hgram_partition_error_iff [of P ncols "pds_limit istate" "hgram_shift istate" 0
          "hgram_buckets istate" ts_init e]
  by (auto simp add: ts_boundaries_def skew_too_extreme_def ts_init_def split: sum.splits)

text \<open>
  During the histogram-based partitioning of a hash-join depth (the depth has a
  tuplestore and its scan has ended), the loader raises the fatal error
  "Too extreme hash-key distribution" exactly when the greedy accumulation reaches the
  budget at a bucket while the accumulated size is still zero, that is, when that
  bucket alone exceeds the budget. The error is the result of
  \<^verbatim>\<open>gpujoin_inner_hash_preload\<close> itself: nothing catches it and no chunk is built.
\<close>

theorem hash_partition_skew_is_fatal:
  assumes "tupstore istate = Some rows"
  shows "gpujoin_inner_hash_preload P ncols istate None total_usage
           = Some (Inl ERR_TooExtremeHashKeyDistribution)
         \<longleftrightarrow> skew_too_extreme (pds_limit istate) (map fst (hgram_buckets istate))"
proof (cases "ts_boundaries P ncols istate")
  case (Inl e)
  then show ?thesis
    using assms ts_boundaries_error_iff [of P ncols istate e]
    by (simp add: gpujoin_inner_hash_preload_def hash_preload_eof_def
        gpujoin_inner_hash_preload_TS_def)
next
  case (Inr chunks)
  have no: "\<not> skew_too_extreme (pds_limit istate) (map fst (hgram_buckets istate))"
    using Inr ts_boundaries_error_iff [of P ncols istate ERR_TooExtremeHashKeyDistribution]
    by simp
  show ?thesis
    using assms Inr no
    by (simp add: gpujoin_inner_hash_preload_def hash_preload_eof_def
        gpujoin_inner_hash_preload_TS_def)
qed

theorem hash_partition_skew_is_fatal_witness:
  "tupstore skewed_depth = Some [(0x20000000, 480)] \<and>
   skew_too_extreme (pds_limit skewed_depth) (map fst (hgram_buckets skewed_depth)) \<and>
   gpujoin_inner_hash_preload example_platform 2 skewed_depth None 0
     = Some (Inl ERR_TooExtremeHashKeyDistribution)"
  using hash_partition_skew_is_fatal [of skewed_depth "[(0x20000000, 480)]" example_platform 2 0]
  by (simp add: skewed_depth_def hash_depth_def skew_too_extreme_def hgram_buckets_def)

text \<open>
  A bucket that exceeds the budget when the accumulated size is not zero raises no
  error: the accumulation is sealed and the bucket starts the next chunk.
\<close>

lemma oversized_bucket_after_accumulation:
  "hgram_partition P nc 10 28 0 [(1, 1), (100, 1), (0, 0), (0, 0)] ts_init
     \<noteq> Inl ERR_TooExtremeHashKeyDistribution"
  by (simp add: ts_init_def)

lemma uneven_boundaries:
  "ts_boundaries example_platform 2 uneven_depth
   = Inr [(ts_chunk example_platform 2 60 1 0 0x1FFFFFFF, 0x1FFFFFFF),
          (ts_chunk example_platform 2 180 3 0x20000000 0x2FFFFFFF, 0x2FFFFFFF),
          (ts_last_chunk example_platform 2 0 0 0x30000000, - 1)]"
  by (simp add: ts_boundaries_def hgram_buckets_def uneven_depth_def hash_depth_def ts_init_def
      ts_hash_max_def Let_def)

text \<open>
  C9. The code does not raise the error for every bucket that alone exceeds the
  budget. The depth below has a budget of 100 bytes and a histogram whose first bucket
  holds one row of 60 bytes and whose second bucket holds three rows, 180 bytes. At
  the second bucket the accumulated size is 60, so the first chunk is sealed and the
  bucket starts the next accumulation; at the third bucket the accumulated size is
  180, not zero, so that chunk is sealed too, with room for 180 bytes of rows (its
  length of 292 bytes is the head of 96 bytes, 16 bytes of slots and the rows): the
  partitioning ends without ``Too extreme hash-key distribution''.
\<close>

theorem oversized_bucket_is_sealed_without_error:
  "pds_limit uneven_depth = 100
   \<and> take 2 (hgram_buckets uneven_depth) = [(60, 1), (180, 3)]
   \<and> tupstore uneven_depth \<noteq> None
   \<and> gpujoin_inner_hash_preload example_platform 2 uneven_depth None 0
       \<noteq> Some (Inl ERR_TooExtremeHashKeyDistribution)
   \<and> map (\<lambda>(c, m). (kds_hash_min c, kds_hash_max c, kds_length c))
         (projr (ts_boundaries example_platform 2 uneven_depth))
       = [(0, 0x1FFFFFFF, 172), (0x20000000, 0x2FFFFFFF, 292), (0x30000000, - 1, 8800)]"
proof -
  have t: "tupstore uneven_depth \<noteq> None" by (simp add: uneven_depth_def)
  then have "gpujoin_inner_hash_preload example_platform 2 uneven_depth None 0
          = Some (Inl TRAP_NullDereference)"
    by (auto simp add: gpujoin_inner_hash_preload_def hash_preload_eof_def
        gpujoin_inner_hash_preload_TS_def uneven_boundaries split: option.splits)
  moreover have "map (\<lambda>(c, m). (kds_hash_min c, kds_hash_max c, kds_length c))
         (projr (ts_boundaries example_platform 2 uneven_depth))
       = [(0, 0x1FFFFFFF, 172), (0x20000000, 0x2FFFFFFF, 292), (0x30000000, - 1, 8800)]"
    unfolding uneven_boundaries
    by (simp add: ts_chunk_def ts_last_chunk_def example_platform_def
        example_store_def STROMALIGN_def TYPEALIGN_def double_examples Let_def)
  ultimately show ?thesis
    by (simp add: uneven_depth_def hash_depth_def hgram_buckets_def)
qed

subsection \<open>The hash ranges of the partition\<close>









subsection \<open>Reaching the byte budget\<close>














text \<open>
  When the budget is reached at the last bucket, \<^verbatim>\<open>hash_max\<close> of the sealed chunk
  is \<open>2^32 - 1\<close> and the lower bound of the last chunk wraps around to zero: the last
  chunk's range is the whole hash space and overlaps every other range.
\<close>

lemma ts_boundaries_overlap_at_last_bucket:
  "map (\<lambda>c. (kds_hash_min c, kds_hash_max c))
       (map fst (projr (ts_boundaries example_platform 2 wrapped_depth)))
   = [(0, 1342177279), (1342177280, 2415919103), (2415919104, 3489660927),
      (3489660928, - 1), (0, - 1)]"
  by (simp add: ts_boundaries_def hgram_buckets_def wrapped_depth_def hash_depth_def ts_init_def
      ts_chunk_def ts_last_chunk_def ts_hash_max_def Let_def)

section \<open>The multi-relation buffer: results\<close>

subsection \<open>What one call changes\<close>

lemma create_task_buffer:
  "gpujoin_create_task P gjs pm src base = Inr (t, pm') \<Longrightarrow> pm' = multirels_attach_buffer pm"
  by (auto simp add: gpujoin_create_task_def Let_def split: sum.splits)

lemma attach_result_buffer_src:
  "gpujoin_attach_result_buffer P gjs pm t = Inr t'
   \<Longrightarrow> pds_src t' = pds_src t \<and> oitems_base t' = oitems_base t"
  by (auto simp add: gpujoin_attach_result_buffer_def Let_def split: sum.splits prod.splits)

lemma create_task_result:
  "gpujoin_create_task P gjs pm src base = Inr (t, pm')
   \<Longrightarrow> pm' = multirels_attach_buffer pm \<and> pds_src t = src \<and> oitems_base t = base"
  by (auto simp add: gpujoin_create_task_def Let_def split: sum.splits
      dest!: attach_result_buffer_src)

lemma count_FreeOjmap:
  "count_list (map FreeOjmap xs) (AllocMirror d) = 0"
  "count_list (map FreeOjmap xs) (FreeMirror d) = 0"
  "filter (is_upload d) (map FreeOjmap xs) = []"
  by (induction xs) auto

lemma detach_mirror_fields:
  assumes "multirels_detach_buffer P gjs pm g f = Inr (gjs', pm', g')"
  shows "refcnt pm' = refcnt pm" "ev_loaded pm' = ev_loaded pm" "m_kmrels pm' = m_kmrels pm"
    "m_ojmaps pm' = m_ojmaps pm" "gpu_ojmap g' = gpu_ojmap g"
    "mirror_allocs g' d = mirror_allocs g d" "mirror_frees g' d = mirror_frees g d"
    "mirror_uploads g' d = mirror_uploads g d"
  using assms
  by (auto simp add: multirels_detach_buffer_def Let_def multirels_attach_buffer_def gpu_issue_def
      mirror_allocs_def mirror_frees_def mirror_uploads_def count_FreeOjmap
      split: sum.splits if_splits dest!: create_task_buffer)

lemma detach_sweeps:
  assumes "multirels_detach_buffer P gjs pm g f = Inr (gjs', pm', g')" and "\<not> released pm"
  shows "length (pending_sweeps gjs')
           = length (pending_sweeps gjs)
             + (if f \<and> n_attached pm = 1 \<and> \<not> outer_join_kicked pm then 1 else 0)"
    and "outer_join_kicked pm' = (outer_join_kicked pm \<or> (f \<and> n_attached pm = 1))"
    and "filter (\<lambda>t. pds_src t \<noteq> None) (pending_tasks gjs')
           = filter (\<lambda>t. pds_src t \<noteq> None) (pending_tasks gjs)"
    and "released pm' = (n_attached pm' = 0)"
    and "n_attached pm' = (if f \<and> n_attached pm = 1 \<and> \<not> outer_join_kicked pm
                           then 1 else n_attached pm - 1)"
  using assms
  by (auto simp add: multirels_detach_buffer_def Let_def multirels_attach_buffer_def
      pending_sweeps_def
      split: sum.splits if_splits dest!: create_task_result)

lemma detach_log:
  assumes "multirels_detach_buffer P gjs pm g f = Inr (gjs', pm', g')"
  shows "gpu_log g' = gpu_log g @
             (if n_attached pm' = 0
              then map FreeOjmap (filter (\<lambda>i. m_ojmaps pm i \<noteq> 0) [0 ..< num_context gjs])
              else [])"
  using assms
  by (auto simp add: multirels_detach_buffer_def Let_def multirels_attach_buffer_def gpu_issue_def
        split: sum.splits if_splits dest!: create_task_result)

subsection \<open>The example buffers\<close>



lemma right_buffer_eval:
  "inner_chunks right_buffer = [(chunk_of 4096)\<lparr>kds_nitems := 100\<rparr>]"
  "ojmap_length right_buffer = 224"
  by (simp_all add: right_buffer_def right_gjs_def gpujoin_make_window_def depth_of_def chunk_of_def
      multirels_add_depth_def gpujoin_create_multirels_def example_platform_def STROMALIGN_def TYPEALIGN_def)

lemma right_buffer_fresh: "fresh_buffer right_buffer"
  by (simp add: right_buffer_def right_gjs_def gpujoin_make_window_def depth_of_def
      multirels_add_depth_def gpujoin_create_multirels_def fresh_buffer_def)

lemma right_buffer_outer: "map right_outer (kern_chunks right_buffer) = [True]"
  by (simp add: right_buffer_def right_gjs_def gpujoin_make_window_def depth_of_def
      multirels_add_depth_def gpujoin_create_multirels_def)

lemma right_buffer_fields:
  "n_attached right_buffer = 1" "\<not> released right_buffer" "refcnt right_buffer = (\<lambda>_. 0)"
  "m_ojmaps right_buffer = (\<lambda>_. 0)" "m_kmrels right_buffer = (\<lambda>_. 0)"
  "ev_loaded right_buffer = (\<lambda>_. 0)" "\<not> outer_join_kicked right_buffer"
  "ojmap_length right_buffer = 224"
  using right_buffer_fresh right_buffer_eval by (simp_all add: fresh_buffer_def)

lemma right_gjs_fields:
  "num_rels right_gjs = 1" "outer_join_start_depth right_gjs = 1"
  "outer_nitems right_gjs = (\<lambda>_. 0)" "source_nitems right_gjs = 0"
  "join_type (inners right_gjs ! 0) = JOIN_RIGHT"
  "result_format right_gjs = KDS_FORMAT_SLOT" "gjs_ncols right_gjs = 2"
  by (simp_all add: right_gjs_def depth_of_def)

lemma u32_sub_small: "u32_sub 100 0 = 100"
  by (simp add: u32_sub_def)

lemma new_sweep_fields:
  "oitems_nums new_sweep = 4025479151" "oitems_base new_sweep = 0"
  "pds_src new_sweep = None" "pds_dst new_sweep = None"
  by (simp_all add: new_sweep_def)

lemma attach_chunks: "inner_chunks (multirels_attach_buffer pm) = inner_chunks pm"
  by (simp add: multirels_attach_buffer_def)

lemma oj_step:
  "i = 1 \<Longrightarrow>
   outer_ntuples_OJ_step example_platform right_gjs (multirels_attach_buffer right_buffer)
     4025479151 i (0, 0) = (125, ddiv 250 4025479151)"
  by (simp add: outer_ntuples_OJ_step_def right_gjs_fields attach_chunks right_buffer_eval
     chunk_of_def example_platform_def Let_def double_examples)

lemma oj_ntuples:
  "d = 2 \<Longrightarrow>
   compute_outer_ntuples_OJ example_platform right_gjs (multirels_attach_buffer right_buffer)
     new_sweep d = Inr (125, ddiv 250 4025479151)"
  by (simp add: compute_outer_ntuples_OJ_def right_gjs_fields new_sweep_fields upt_rec oj_step
      double_to_size_def)

lemma sweep_estimate:
  "fresh_estimate example_platform right_gjs (multirels_attach_buffer right_buffer) new_sweep
   = Inr (100, ddiv 250 4025479151, 5 / 4)"
  by (simp add: fresh_estimate_def oj_ntuples right_gjs_fields new_sweep_fields attach_chunks
      right_buffer_eval chunk_of_def u32_sub_small double_examples)

lemma ex_consts:
  "kgjoin_head example_platform right_gjs = 176"
  "resultbuf_length example_platform 0 = 32"
  "pgstrom_chunk_size example_platform = 65536"
  "pgstrom_chunk_size_limit example_platform = 262144"
  "pgstrom_chunk_size_margin example_platform = 5 / 4"
  "STROMALIGN example_platform (kds_colmeta_off example_platform 2) = 96"
  "slot_width 2 = 24"
  by (simp_all add: kgjoin_head_def resultbuf_length_def STROMALIGN_def TYPEALIGN_def slot_width_def
      LONGALIGN_def right_gjs_def example_platform_def)

lemma sweep_resultbuf:
  "resultbuf_sizing example_platform right_gjs 100 (ddiv 250 4025479151) = Inr (100, 0)"
  by (simp add: resultbuf_sizing_def predicted_total_items_def kgjoin_length_def ex_consts
      double_examples Let_def)

lemma size_sub_small: "size_sub 16384 96 = 16288"
  by (simp add: size_sub_def)

lemma sweep_dst:
  "dst_sizing_slot example_platform right_gjs new_sweep 100 (5 / 4)
   = Inr (100, create_data_store_slot example_platform 678)"
  by (simp add: dst_sizing_slot_def predicted_result_nitems_def slot_length_def ex_consts
      right_gjs_fields new_sweep_fields double_examples size_sub_small Let_def)

lemma sweep_attach:
  "\<exists>t. gpujoin_attach_result_buffer example_platform right_gjs
          (multirels_attach_buffer right_buffer) new_sweep = Inr t"
  by (simp add: gpujoin_attach_result_buffer_def sweep_estimate retry_estimate_def new_sweep_fields
      sweep_resultbuf sweep_dst right_gjs_fields Let_def)

lemma sweep_create:
  "\<exists>t. gpujoin_create_task example_platform right_gjs right_buffer None 0
        = Inr (t, multirels_attach_buffer right_buffer)"
  using sweep_attach
  by (auto simp add: gpujoin_create_task_def new_sweep_def Let_def)

lemma first_detach:
  "\<exists>t. multirels_detach_buffer example_platform right_gjs right_buffer gpu_init True
     = Inr (right_gjs\<lparr>pending_tasks := [t], num_pending_tasks := 1\<rparr>,
            right_buffer\<lparr>n_attached := 1, outer_join_kicked := True\<rparr>, gpu_init)
     \<and> pds_src t = None"
proof -
  obtain t where t: "gpujoin_create_task example_platform right_gjs right_buffer None 0
        = Inr (t, multirels_attach_buffer right_buffer)"
    using sweep_create by blast
  have "pds_src t = None" using create_task_result [OF t] by simp
  moreover have "multirels_detach_buffer example_platform right_gjs right_buffer gpu_init True
     = Inr (right_gjs\<lparr>pending_tasks := [t], num_pending_tasks := 1\<rparr>,
            right_buffer\<lparr>n_attached := 1, outer_join_kicked := True\<rparr>, gpu_init)"
    using right_buffer_fresh
    by (simp add: multirels_detach_buffer_def t fresh_buffer_def multirels_attach_buffer_def Let_def)
       (simp add: right_gjs_def)
  ultimately show ?thesis by blast
qed

lemma twice_detached_run:
  "\<exists>t. mr_run example_platform (right_gjs, right_buffer, gpu_init) twice_detached
     = Inr (right_gjs\<lparr>pending_tasks := [t], num_pending_tasks := 1\<rparr>,
            right_buffer\<lparr>n_attached := 0, outer_join_kicked := True, released := True\<rparr>,
            gpu_init)
     \<and> pds_src t = None
     \<and> mr_valid_run example_platform (right_gjs, right_buffer, gpu_init) twice_detached"
proof -
  obtain t where t: "multirels_detach_buffer example_platform right_gjs right_buffer gpu_init True
     = Inr (right_gjs\<lparr>pending_tasks := [t], num_pending_tasks := 1\<rparr>,
            right_buffer\<lparr>n_attached := 1, outer_join_kicked := True\<rparr>, gpu_init)"
    and s: "pds_src t = None"
    using first_detach by blast
  have f: "n_attached right_buffer = 1" "\<not> released right_buffer" "refcnt right_buffer = (\<lambda>_. 0)"
    "m_ojmaps right_buffer = (\<lambda>_. 0)"
    using right_buffer_fresh by (simp_all add: fresh_buffer_def)
  have n: "num_context right_gjs = 2" by (simp add: right_gjs_def)
  show ?thesis
    apply (rule exI [of _ t])
    apply (simp add: twice_detached_def t s f list_all_iff)
    apply (simp add: multirels_detach_buffer_def f n Let_def gpu_issue_def gpu_init_def)
    done
qed

lemmas detach_eval = multirels_detach_buffer_def multirels_attach_buffer_def right_buffer_fields
  gpu_issue_def gpu_init_def Let_def list_all_iff





lemmas probe_eval = probe_ops_def multirels_get_buffer_def multirels_put_buffer_def gpu_issue_def
      gpu_init_def right_buffer_fields Let_def

lemma probe_run:
  "mr_run example_platform (right_gjs, right_buffer, gpu_init) probe_ops
   = Inr (projr (mr_run example_platform (right_gjs, right_buffer, gpu_init) probe_ops))"
  by (simp add: probe_eval)

lemma probe_valid: "mr_valid_run example_platform (right_gjs, right_buffer, gpu_init) probe_ops"
  by (simp add: probe_eval right_gjs_def)

lemma probe_final:
  "gpu_ojmap (snd (snd (projr (mr_run example_platform (right_gjs, right_buffer, gpu_init) probe_ops)))) 0
     = {3, 5}"
  "gpu_log (snd (snd (projr (mr_run example_platform (right_gjs, right_buffer, gpu_init) probe_ops))))
     = [AllocMirror 0, AllocOjmap 0, ZeroOjmap 0, FreeMirror 0, AllocMirror 0, FreeMirror 0]"
  "m_ojmaps (fst (snd (projr (mr_run example_platform (right_gjs, right_buffer, gpu_init) probe_ops)))) 0
     = 512"
  by (simp_all add: probe_eval insert_commute)

lemma held_detach:
  "multirels_detach_buffer example_platform right_gjs held_buffer marked_gpu False
   = Inr (right_gjs, held_buffer\<lparr> n_attached := 0, released := True \<rparr>,
          marked_gpu\<lparr> gpu_log := gpu_log marked_gpu @ [FreeOjmap 0] \<rparr>)"
  by (simp add: multirels_detach_buffer_def held_buffer_def right_buffer_fields gpu_issue_def Let_def)
     (simp add: right_gjs_def upt_rec)

subsection \<open>The device mirror\<close>






subsection \<open>The outer-join map\<close>

lemma marks_inv_step:
  assumes "mr_valid st op" and "mr_step P st op = Inr st'" and "marks_inv d M st"
  shows "marks_inv d (M \<union> marked_rows [op] d) st'"
proof -
  obtain gjs pm g where st: "st = (gjs, pm, g)" by (cases st)
  obtain gjs' pm' g' where st': "st' = (gjs', pm', g')" by (cases st')
  show ?thesis
  proof (cases op)
    case OpAttach
    then show ?thesis using assms by (auto simp add: st st' marks_inv_def multirels_attach_buffer_def)
  next
    case (OpDetach f)
    then have "multirels_detach_buffer P gjs pm g f = Inr (gjs', pm', g')"
      using assms(2) by (simp add: st st')
    from detach_mirror_fields(4,5) [OF this] show ?thesis
      using assms(3) OpDetach by (simp add: st st' marks_inv_def)
  next
    case (OpGet d' a1 a2)
    then show ?thesis using assms
      by (auto simp add: st st' marks_inv_def multirels_get_buffer_def gpu_issue_def
          split: if_splits)
  next
    case (OpSend d' s ev)
    then show ?thesis using assms
      by (auto simp add: st st' marks_inv_def multirels_send_buffer_def gpu_issue_def
          split: if_splits)
  next
    case (OpPut d')
    then show ?thesis using assms
      by (auto simp add: st st' marks_inv_def multirels_put_buffer_def gpu_issue_def Let_def
          split: if_splits)
  next
    case (OpMark d' rows)
    then show ?thesis using assms
      by (auto simp add: st st' marks_inv_def)
  qed
qed

lemma marked_rows_Cons: "marked_rows (op # ops) d = marked_rows [op] d \<union> marked_rows ops d"
  by (cases op) auto

lemma marks_inv_run:
  assumes "mr_valid_run P st ops" and "mr_run P st ops = Inr st'" and "marks_inv d M st"
  shows "marks_inv d (M \<union> marked_rows ops d) st'"
  using assms
proof (induction ops arbitrary: st M)
  case Nil
  then show ?case by simp
next
  case (Cons op ops)
  obtain st1 where s1: "mr_step P st op = Inr st1"
    using Cons.prems(2) by (auto split: sum.splits)
  have v: "mr_valid st op" and vr: "mr_valid_run P st1 ops" and r: "mr_run P st1 ops = Inr st'"
    using Cons.prems s1 by simp_all
  have "marks_inv d (M \<union> marked_rows [op] d) st1"
    by (rule marks_inv_step [OF v s1 Cons.prems(3)])
  from Cons.IH [OF vr r this] show ?case
    by (subst marked_rows_Cons) (simp add: Un_assoc)
qed

lemma free_inv_step:
  assumes "mr_valid st op" and "mr_step P st op = Inr st'" and "free_inv d st"
  shows "free_inv d st'"
proof -
  obtain gjs pm g where st: "st = (gjs, pm, g)" by (cases st)
  obtain gjs' pm' g' where st': "st' = (gjs', pm', g')" by (cases st')
  show ?thesis
  proof (cases op)
    case (OpDetach f)
    then have d: "multirels_detach_buffer P gjs pm g f = Inr (gjs', pm', g')"
      and nr: "\<not> released pm"
      using assms(1,2) by (simp_all add: st st')
    from detach_log [OF d] detach_sweeps(4) [OF d nr] show ?thesis
      using assms(3) nr by (auto simp add: st st' free_inv_def split: if_splits)
  next
    case OpAttach
    then show ?thesis using assms
      by (auto simp add: st st' free_inv_def multirels_attach_buffer_def)
  next
    case (OpGet d' a1 a2)
    then show ?thesis using assms
      by (auto simp add: st st' free_inv_def multirels_get_buffer_def gpu_issue_def split: if_splits)
  next
    case (OpSend d' s ev)
    then show ?thesis using assms
      by (auto simp add: st st' free_inv_def multirels_send_buffer_def gpu_issue_def split: if_splits)
  next
    case (OpPut d')
    then show ?thesis using assms
      by (auto simp add: st st' free_inv_def multirels_put_buffer_def gpu_issue_def Let_def
          split: if_splits)
  next
    case (OpMark d' rows)
    then show ?thesis using assms by (auto simp add: st st' free_inv_def)
  qed
qed

lemma free_inv_run:
  assumes "mr_valid_run P st ops" and "mr_run P st ops = Inr st'" and "free_inv d st"
  shows "free_inv d st'"
  using assms
proof (induction ops arbitrary: st)
  case Nil
  then show ?case by simp
next
  case (Cons op ops)
  then show ?case
    by (auto split: sum.splits dest: free_inv_step)
qed

text \<open>
  C10. \<^verbatim>\<open>multirels_put_buffer\<close> leaves the outer-join maps and their contents alone:
  when it drops the device's count to zero it frees the mirror and destroys the load
  event, and nothing else. \<^verbatim>\<open>multirels_get_buffer\<close> on a device whose map is
  allocated neither allocates nor clears it. \<^verbatim>\<open>multirels_detach_buffer\<close> frees the
  maps exactly when it brings the attach count to zero. Hence, over any sequence of
  calls on a fresh buffer, the rows that probe kernels have marked on a device are
  still in the device's map at the end, also when the mirror was freed and allocated
  again in between, and a map is freed only once the buffer is released.
\<close>

theorem ojmap_survives_mirror_release:
  "gpu_ojmap (snd (multirels_put_buffer pm g d)) = gpu_ojmap g
   \<and> m_ojmaps (fst (multirels_put_buffer pm g d)) = m_ojmaps pm
   \<and> gpu_log (snd (multirels_put_buffer pm g d))
       = gpu_log g @ (if refcnt pm d = 1
                      then FreeMirror d # (if ev_loaded pm d \<noteq> 0 then [EventDestroy d] else [])
                      else [])
   \<and> (m_ojmaps pm d \<noteq> 0
       \<longrightarrow> gpu_ojmap (snd (snd (multirels_get_buffer pm g d a_kmrels a_ojmaps))) = gpu_ojmap g
         \<and> m_ojmaps (fst (snd (multirels_get_buffer pm g d a_kmrels a_ojmaps))) = m_ojmaps pm
         \<and> ZeroOjmap d \<notin> set (drop (length (gpu_log g))
              (gpu_log (snd (snd (multirels_get_buffer pm g d a_kmrels a_ojmaps))))))
   \<and> (multirels_detach_buffer P gjs pm g may_kick = Inr (gjs', pm', g')
       \<longrightarrow> gpu_log g' = gpu_log g @
             (if n_attached pm' = 0
              then map FreeOjmap (filter (\<lambda>i. m_ojmaps pm i \<noteq> 0) [0 ..< num_context gjs])
              else []))
   \<and> (fresh_buffer pm \<and> mr_valid_run P (gjs, pm, gpu_init) ops
        \<and> mr_run P (gjs, pm, gpu_init) ops = Inr (gjs', pm', g')
       \<longrightarrow> marked_rows ops d \<subseteq> gpu_ojmap g' d
         \<and> (FreeOjmap d \<in> set (gpu_log g') \<longrightarrow> released pm' \<and> n_attached pm' = 0))"
proof (intro conjI impI)
  show "gpu_ojmap (snd (multirels_put_buffer pm g d)) = gpu_ojmap g"
    by (simp add: multirels_put_buffer_def gpu_issue_def Let_def)
  show "m_ojmaps (fst (multirels_put_buffer pm g d)) = m_ojmaps pm"
    by (simp add: multirels_put_buffer_def gpu_issue_def Let_def)
  show "gpu_log (snd (multirels_put_buffer pm g d))
       = gpu_log g @ (if refcnt pm d = 1
                      then FreeMirror d # (if ev_loaded pm d \<noteq> 0 then [EventDestroy d] else [])
                      else [])"
    by (simp add: multirels_put_buffer_def gpu_issue_def Let_def)
next
  assume "m_ojmaps pm d \<noteq> 0"
  then show "gpu_ojmap (snd (snd (multirels_get_buffer pm g d a_kmrels a_ojmaps))) = gpu_ojmap g"
    and "m_ojmaps (fst (snd (multirels_get_buffer pm g d a_kmrels a_ojmaps))) = m_ojmaps pm"
    and "ZeroOjmap d \<notin> set (drop (length (gpu_log g))
              (gpu_log (snd (snd (multirels_get_buffer pm g d a_kmrels a_ojmaps)))))"
    by (simp_all add: multirels_get_buffer_def gpu_issue_def)
next
  assume "multirels_detach_buffer P gjs pm g may_kick = Inr (gjs', pm', g')"
  then show "gpu_log g' = gpu_log g @
             (if n_attached pm' = 0
              then map FreeOjmap (filter (\<lambda>i. m_ojmaps pm i \<noteq> 0) [0 ..< num_context gjs])
              else [])"
    by (rule detach_log)
next
  assume a: "fresh_buffer pm \<and> mr_valid_run P (gjs, pm, gpu_init) ops
        \<and> mr_run P (gjs, pm, gpu_init) ops = Inr (gjs', pm', g')"
  have "marks_inv d {} (gjs, pm, gpu_init)"
    by (simp add: marks_inv_def)
  then have "marks_inv d ({} \<union> marked_rows ops d) (gjs', pm', g')"
    using a marks_inv_run by blast
  then show "marked_rows ops d \<subseteq> gpu_ojmap g' d"
    by (simp add: marks_inv_def)
  have "free_inv d (gjs, pm, gpu_init)"
    by (simp add: free_inv_def gpu_init_def)
  then have f: "free_inv d (gjs', pm', g')"
    using a free_inv_run by blast
  { assume "FreeOjmap d \<in> set (gpu_log g')"
    then show "released pm'" and "n_attached pm' = 0"
      using f by (simp_all add: free_inv_def) }
qed

theorem ojmap_survives_mirror_release_witness:
  "fresh_buffer right_buffer
   \<and> mr_valid_run example_platform (right_gjs, right_buffer, gpu_init) probe_ops
   \<and> {3, 5} \<subseteq> gpu_ojmap (snd (snd (projr
         (mr_run example_platform (right_gjs, right_buffer, gpu_init) probe_ops)))) 0
   \<and> FreeOjmap 0 \<notin> set (gpu_log (snd (snd (projr
         (mr_run example_platform (right_gjs, right_buffer, gpu_init) probe_ops)))))
   \<and> m_ojmaps held_buffer 0 \<noteq> 0
   \<and> gpu_ojmap (snd (snd (multirels_get_buffer held_buffer marked_gpu 0 8192 0))) 0 = {3}
   \<and> gpu_ojmap (snd (multirels_put_buffer held_buffer marked_gpu 0)) 0 = {3}
   \<and> gpu_log (snd (snd (projr
         (multirels_detach_buffer example_platform right_gjs held_buffer marked_gpu False))))
       = gpu_log marked_gpu @ [FreeOjmap 0]"
proof -
  let ?R = "mr_run example_platform (right_gjs, right_buffer, gpu_init) probe_ops"
  have run2: "marked_rows probe_ops 0 \<subseteq> gpu_ojmap (snd (snd (projr ?R))) 0"
    using ojmap_survives_mirror_release [of right_buffer gpu_init 0 8192 0 example_platform right_gjs False
        "fst (projr ?R)" "fst (snd (projr ?R))" "snd (snd (projr ?R))" probe_ops]
      right_buffer_fresh probe_valid probe_run
    by simp
  have h: "m_ojmaps held_buffer 0 \<noteq> 0" by (simp add: held_buffer_def)
  have g: "gpu_ojmap (snd (snd (multirels_get_buffer held_buffer marked_gpu 0 8192 0))) = gpu_ojmap marked_gpu"
    using ojmap_survives_mirror_release [of held_buffer marked_gpu 0 8192 0] h by blast
  have p: "gpu_ojmap (snd (multirels_put_buffer held_buffer marked_gpu 0)) = gpu_ojmap marked_gpu"
    using ojmap_survives_mirror_release [of held_buffer marked_gpu 0] by blast
  show ?thesis
    using run2 right_buffer_fresh probe_valid h
    by (simp add: g p held_detach probe_final) (simp add: probe_ops_def marked_gpu_def)
qed

subsection \<open>The outer-join task\<close>

lemma sweep_inv_step:
  assumes "mr_valid st op" and "mr_step P st op = Inr st'" and "sweep_inv k st"
  shows "sweep_inv k st'"
proof -
  obtain gjs pm g where st: "st = (gjs, pm, g)" by (cases st)
  obtain gjs' pm' g' where st': "st' = (gjs', pm', g')" by (cases st')
  show ?thesis
  proof (cases op)
    case (OpDetach f)
    then have d: "multirels_detach_buffer P gjs pm g f = Inr (gjs', pm', g')"
      and nr: "\<not> released pm"
      using assms(1,2) by (simp_all add: st st')
    from detach_sweeps(1,2) [OF d nr] show ?thesis
      using assms(3) by (auto simp add: st st' sweep_inv_def)
  next
    case OpAttach
    then show ?thesis using assms
      by (auto simp add: st st' sweep_inv_def multirels_attach_buffer_def)
  next
    case (OpGet d' a1 a2)
    then show ?thesis using assms
      by (auto simp add: st st' sweep_inv_def multirels_get_buffer_def split: if_splits)
  next
    case (OpSend d' s ev)
    then show ?thesis using assms
      by (auto simp add: st st' sweep_inv_def multirels_send_buffer_def split: if_splits)
  next
    case (OpPut d')
    then show ?thesis using assms
      by (auto simp add: st st' sweep_inv_def multirels_put_buffer_def Let_def split: if_splits)
  next
    case (OpMark d' rows)
    then show ?thesis using assms by (auto simp add: st st' sweep_inv_def)
  qed
qed

lemma sweep_inv_run:
  assumes "mr_valid_run P st ops" and "mr_run P st ops = Inr st'" and "sweep_inv k st"
  shows "sweep_inv k st'"
  using assms
proof (induction ops arbitrary: st)
  case Nil
  then show ?case by simp
next
  case (Cons op ops)
  then show ?case
    by (auto split: sum.splits dest: sweep_inv_step)
qed

text \<open>
  What holds of the outer-join task. A call of \<^verbatim>\<open>multirels_detach_buffer\<close> puts one
  task without an outer chunk at the tail of the pending queue exactly when its flag is
  set, the attach count is one and the outer join is not yet kicked; the other pending
  tasks stay. Over any sequence of calls on a fresh buffer, the number of such tasks
  enqueued is one if the outer join was kicked and zero otherwise.
\<close>

theorem sweep_enqueued_at_most_once:
  "(multirels_detach_buffer P gjs pm g may_kick = Inr (gjs', pm', g') \<and> \<not> released pm
    \<longrightarrow> length (pending_sweeps gjs')
          = length (pending_sweeps gjs)
            + (if may_kick \<and> n_attached pm = 1 \<and> \<not> outer_join_kicked pm then 1 else 0)
        \<and> filter (\<lambda>t. pds_src t \<noteq> None) (pending_tasks gjs')
          = filter (\<lambda>t. pds_src t \<noteq> None) (pending_tasks gjs)
        \<and> outer_join_kicked pm' = (outer_join_kicked pm \<or> (may_kick \<and> n_attached pm = 1)))
   \<and> (fresh_buffer pm \<and> mr_valid_run P (gjs, pm, gpu_init) ops
        \<and> mr_run P (gjs, pm, gpu_init) ops = Inr (gjs', pm', g')
       \<longrightarrow> length (pending_sweeps gjs')
             = length (pending_sweeps gjs) + (if outer_join_kicked pm' then 1 else 0))"
proof (intro conjI impI)
  assume a: "multirels_detach_buffer P gjs pm g may_kick = Inr (gjs', pm', g') \<and> \<not> released pm"
  then have d: "multirels_detach_buffer P gjs pm g may_kick = Inr (gjs', pm', g')"
    and nr: "\<not> released pm" by simp_all
  show "length (pending_sweeps gjs')
          = length (pending_sweeps gjs)
            + (if may_kick \<and> n_attached pm = 1 \<and> \<not> outer_join_kicked pm then 1 else 0)"
    by (rule detach_sweeps(1) [OF d nr])
  show "filter (\<lambda>t. pds_src t \<noteq> None) (pending_tasks gjs')
          = filter (\<lambda>t. pds_src t \<noteq> None) (pending_tasks gjs)"
    by (rule detach_sweeps(3) [OF d nr])
  show "outer_join_kicked pm' = (outer_join_kicked pm \<or> (may_kick \<and> n_attached pm = 1))"
    by (rule detach_sweeps(2) [OF d nr])
next
  assume a: "fresh_buffer pm \<and> mr_valid_run P (gjs, pm, gpu_init) ops
        \<and> mr_run P (gjs, pm, gpu_init) ops = Inr (gjs', pm', g')"
  have "sweep_inv (length (pending_sweeps gjs)) (gjs, pm, gpu_init)"
    using a by (simp add: sweep_inv_def fresh_buffer_def)
  then have "sweep_inv (length (pending_sweeps gjs)) (gjs', pm', g')"
    using a sweep_inv_run by blast
  then show "length (pending_sweeps gjs')
             = length (pending_sweeps gjs) + (if outer_join_kicked pm' then 1 else 0)"
    by (simp add: sweep_inv_def)
qed

theorem sweep_enqueued_at_most_once_witness:
  "fresh_buffer right_buffer
   \<and> map right_outer (kern_chunks right_buffer) = [True]
   \<and> mr_valid_run example_platform (right_gjs, right_buffer, gpu_init) twice_detached
   \<and> length (pending_sweeps (fst (projr
         (mr_run example_platform (right_gjs, right_buffer, gpu_init) twice_detached)))) = 1
   \<and> released (fst (snd (projr
         (mr_run example_platform (right_gjs, right_buffer, gpu_init) twice_detached))))
   \<and> length (pending_sweeps (fst (projr
         (multirels_detach_buffer example_platform right_gjs right_buffer gpu_init True)))) = 1
   \<and> outer_join_kicked (fst (snd (projr
         (multirels_detach_buffer example_platform right_gjs right_buffer gpu_init True))))"
proof -
  let ?R = "mr_run example_platform (right_gjs, right_buffer, gpu_init) twice_detached"
  let ?D = "multirels_detach_buffer example_platform right_gjs right_buffer gpu_init True"
  obtain t where R: "?R = Inr (right_gjs\<lparr>pending_tasks := [t], num_pending_tasks := 1\<rparr>,
            right_buffer\<lparr>n_attached := 0, outer_join_kicked := True, released := True\<rparr>,
            gpu_init)"
    and v: "mr_valid_run example_platform (right_gjs, right_buffer, gpu_init) twice_detached"
    using twice_detached_run by blast
  obtain t' where D: "?D = Inr (right_gjs\<lparr>pending_tasks := [t'], num_pending_tasks := 1\<rparr>,
            right_buffer\<lparr>n_attached := 1, outer_join_kicked := True\<rparr>, gpu_init)"
    using first_detach by blast
  have e: "pending_sweeps right_gjs = []" by (simp add: pending_sweeps_def right_gjs_def)
  have run: "length (pending_sweeps (fst (projr ?R))) = 1"
    using sweep_enqueued_at_most_once [of example_platform right_gjs right_buffer gpu_init True
        "fst (projr ?R)" "fst (snd (projr ?R))" "snd (snd (projr ?R))" twice_detached]
      right_buffer_fresh v
    by (simp add: R e)
  have step: "length (pending_sweeps (fst (projr ?D))) = 1
      \<and> outer_join_kicked (fst (snd (projr ?D)))"
    using sweep_enqueued_at_most_once [of example_platform right_gjs right_buffer gpu_init True
        "fst (projr ?D)" "fst (snd (projr ?D))" "snd (snd (projr ?D))"]
      right_buffer_fields
    by (simp add: D e)
  show ?thesis
    using run step right_buffer_fresh right_buffer_outer v by (simp add: R)
qed

text \<open>
  C2. The code does not enqueue the outer-join task when a task is still attached to
  the buffer at the moment the executor detaches. In the run below a task is created
  for an outer chunk (\<^verbatim>\<open>gpujoin_create_task\<close> attaches it to the buffer), takes the
  buffer on device 0 and marks the inner row 3 as matched; the outer scan ends and
  \<^verbatim>\<open>gpujoin_next_chunk\<close> detaches with the flag set, while the attach count is two;
  the task completes and its release (\<^verbatim>\<open>gpujoin_task_release\<close>) detaches with the
  flag false. This last detach is the one ``with \<^verbatim>\<open>n_attached==1\<close>'' that, by the
  comment in \<^verbatim>\<open>multirels_detach_buffer\<close>, has to kick the outer join; it releases
  the buffer of a right outer join and frees the outer-join map with its mark, the
  outer join was never kicked, and no task is pending.
\<close>

theorem detach_with_tasks_in_flight_enqueues_no_sweep:
  "fresh_buffer right_buffer
   \<and> map right_outer (kern_chunks right_buffer) = [True]
   \<and> mr_valid_run example_platform (right_gjs, right_buffer, gpu_init) in_flight_ops
   \<and> marked_rows in_flight_ops 0 = {3}
   \<and> map_option released
        (final_buffer (mr_run example_platform (right_gjs, right_buffer, gpu_init) in_flight_ops))
      = Some True
   \<and> map_option outer_join_kicked
        (final_buffer (mr_run example_platform (right_gjs, right_buffer, gpu_init) in_flight_ops))
      = Some False
   \<and> map_option pending_tasks
        (final_gjs (mr_run example_platform (right_gjs, right_buffer, gpu_init) in_flight_ops))
      = Some []
   \<and> gpu_log
        (final_gpu (mr_run example_platform (right_gjs, right_buffer, gpu_init) in_flight_ops))
      = [AllocMirror 0, AllocOjmap 0, ZeroOjmap 0, EventCreate 0, UploadMirror 0 1,
         EventRecord 0 1, FreeMirror 0, EventDestroy 0, FreeOjmap 0]"
  using right_buffer_fresh right_buffer_outer
  by (simp add: in_flight_ops_def detach_eval multirels_get_buffer_def multirels_put_buffer_def
        multirels_send_buffer_def final_buffer_def final_gjs_def final_gpu_def)
     (simp add: right_gjs_def upt_rec)

section \<open>Window enumeration: results\<close>

lemma odometer_advance_two_by_two: "odometer_advance two_by_two 2 = Some stuck_state"
  by (simp add: two_by_two_def stuck_state_def depth_of_def odometer_reset_def numeral_2_eq_2)

lemma odometer_advance_stuck: "odometer_advance stuck_state 2 = Some stuck_state"
  by (simp add: stuck_state_def depth_of_def odometer_reset_def numeral_2_eq_2)

lemma length_stuck_state: "length stuck_state = 2"
  by (simp add: stuck_state_def)

lemma length_two_by_two: "length two_by_two = 2"
  by (simp add: two_by_two_def)

lemma make_window_stuck:
  "\<exists>p. gpujoin_make_window P nd stuck_state = Inr p
       \<and> inner_chunks p = [chunk_of 10, chunk_of 20]"
  by (simp add: stuck_state_def depth_of_def gpujoin_make_window_def multirels_add_depth_def
      gpujoin_create_multirels_def Let_def)

lemma preload_next_stuck:
  "\<exists>p. gpujoin_inner_preload_next P nd stuck_state = Inr (Some p, stuck_state)
       \<and> inner_chunks p = [chunk_of 10, chunk_of 20]"
  using make_window_stuck [of P nd]
  by (auto simp add: gpujoin_inner_preload_next_def odometer_advance_stuck length_stuck_state)

lemma preload_next_two_by_two:
  "\<exists>p. gpujoin_inner_preload_next P nd two_by_two = Inr (Some p, stuck_state)
       \<and> inner_chunks p = [chunk_of 10, chunk_of 20]"
  using make_window_stuck [of P nd]
  by (auto simp add: gpujoin_inner_preload_next_def odometer_advance_two_by_two length_two_by_two)

lemma preload_windows_stuck:
  "preload_windows P nd n stuck_state = Inr (replicate n [chunk_of 10, chunk_of 20], False)"
proof (induction n)
  case 0
  show ?case by simp
next
  case (Suc n)
  obtain p where "gpujoin_inner_preload_next P nd stuck_state = Inr (Some p, stuck_state)"
    and "inner_chunks p = [chunk_of 10, chunk_of 20]"
    using preload_next_stuck by blast
  then show ?case using Suc by simp
qed

text \<open>
  C1. The claim: every (outer chunk, inner window) pair is visited exactly once; the
  odometer increments the least-significant depth that has chunks left, resets the
  less-significant depths, and the next buffer is built from the chunks the odometer
  selects. On the code, with two depths of two chunks each, every call of
  \<^verbatim>\<open>gpujoin_inner_preload\<close> after the first window builds the window of the two
  first chunks again and never reports the end of the inner scan: the reset loop
  assigns to \<^verbatim>\<open>inners[i]\<close> instead of \<^verbatim>\<open>inners[j]\<close>, which undoes the
  increment of depth 1, and the window is built from \<^verbatim>\<open>linitial(pds_list)\<close>
  whatever \<^verbatim>\<open>pds_index\<close> says. The windows with the second chunk of either depth are
  never built.
\<close>

theorem gpujoin_inner_preload_repeats_first_window:
  "preload_windows P nd n two_by_two = Inr (replicate n [chunk_of 10, chunk_of 20], False)"
proof (cases n)
  case 0
  then show ?thesis by simp
next
  case (Suc m)
  obtain p where "gpujoin_inner_preload_next P nd two_by_two = Inr (Some p, stuck_state)"
    and "inner_chunks p = [chunk_of 10, chunk_of 20]"
    using preload_next_two_by_two by blast
  then show ?thesis using Suc preload_windows_stuck [of P nd m] by simp
qed

end
